theory Spec2Isabelle
  imports Complex_Main "HOL-Library.Sublist" "HOL-Library.Multiset" "HOL-Library.AList"
begin

section \<open>JavaScript string primitives\<close>

text \<open>
  A JavaScript string is a sequence of code units; it is modelled as a \<open>string\<close>, one
  \<open>char\<close> per code unit, for the code units below 256. The empty string is the only
  falsy string, so a test \<^verbatim>\<open>if (s)\<close> on a string field is \<open>s \<noteq> []\<close>. The string fields
  of rows, specs, stock items and groups are strings in the model, as they are in the
  objects that the classifier and \<^verbatim>\<open>createProductGroups\<close> build; where the source only
  tests such a field for truth, a missing field behaves as the empty string does.
\<close>

text \<open>\<^verbatim>\<open>s.includes(sub)\<close>\<close>

fun str_includes :: "string \<Rightarrow> string \<Rightarrow> bool" where
  "str_includes [] sub = (sub = [])"
| "str_includes (c # cs) sub = (prefix sub (c # cs) \<or> str_includes cs sub)"

text \<open>\<^verbatim>\<open>s.replace(pat, rep)\<close> with a string pattern: the first occurrence only.\<close>

fun replaceFirst :: "string \<Rightarrow> string \<Rightarrow> string \<Rightarrow> string" where
  "replaceFirst pat rep [] = (if pat = [] then rep else [])"
| "replaceFirst pat rep (c # cs) =
     (if prefix pat (c # cs) then rep @ drop (length pat) (c # cs)
      else c # replaceFirst pat rep cs)"

text \<open>\<^verbatim>\<open>xs.join(sep)\<close>\<close>

fun join :: "string \<Rightarrow> string list \<Rightarrow> string" where
  "join sep [] = []"
| "join sep [x] = x"
| "join sep (x # y # ys) = x @ sep @ join sep (y # ys)"

text \<open>
  Character classes of the regular expressions and string methods of the source, on code
  units below 256: \<^verbatim>\<open>\s\<close> (also the set that \<^verbatim>\<open>trim\<close> and \<^verbatim>\<open>parseInt\<close> skip),
  \<^verbatim>\<open>\d\<close>, \<^verbatim>\<open>[a-z]\<close>, \<^verbatim>\<open>[A-Z]\<close>.
\<close>

definition isSpace :: "char \<Rightarrow> bool" where
  "isSpace c =
     (let n = (of_char c :: nat) in n = 32 \<or> (9 \<le> n \<and> n \<le> 13) \<or> n = 160)"

definition isDigit :: "char \<Rightarrow> bool" where
  "isDigit c = (48 \<le> (of_char c :: nat) \<and> (of_char c :: nat) \<le> 57)"

definition isLower :: "char \<Rightarrow> bool" where
  "isLower c = (97 \<le> (of_char c :: nat) \<and> (of_char c :: nat) \<le> 122)"

definition isUpper :: "char \<Rightarrow> bool" where
  "isUpper c = (65 \<le> (of_char c :: nat) \<and> (of_char c :: nat) \<le> 90)"

text \<open>
  \<^verbatim>\<open>toLowerCase\<close>: the ASCII capitals and the Latin-1 capitals (0xC0 to 0xDE without
  the multiplication sign 0xD7) move up by 32, which sets the bit of value 32 that is
  clear in all of them.
\<close>

definition setBit32 :: "bool \<Rightarrow> char \<Rightarrow> char" where
  "setBit32 b c = (case c of Char b0 b1 b2 b3 b4 b5 b6 b7 \<Rightarrow> Char b0 b1 b2 b3 b4 b b6 b7)"

definition lowerChar :: "char \<Rightarrow> char" where
  "lowerChar c =
     (let n = (of_char c :: nat)
      in if (65 \<le> n \<and> n \<le> 90) \<or> (192 \<le> n \<and> n \<le> 222 \<and> n \<noteq> 215)
         then setBit32 True c else c)"

definition toLowerCase :: "string \<Rightarrow> string" where
  "toLowerCase s = map lowerChar s"

text \<open>
  \<^verbatim>\<open>toUpperCase\<close>: the ASCII and Latin-1 small letters move down by 32 and the sharp s
  (0xDF) becomes \<open>SS\<close>. The two code units below 256 whose capital lies above 255 (0xB5 and
  0xFF) are left as they are.
\<close>

definition upperChar :: "char \<Rightarrow> string" where
  "upperChar c =
     (let n = (of_char c :: nat)
      in if (97 \<le> n \<and> n \<le> 122) \<or> (224 \<le> n \<and> n \<le> 254 \<and> n \<noteq> 247)
         then [setBit32 False c]
         else if n = 223 then ''SS'' else [c])"

definition toUpperCase :: "string \<Rightarrow> string" where
  "toUpperCase s = concat (map upperChar s)"

text \<open>\<^verbatim>\<open>s.trim()\<close>\<close>

definition trim :: "string \<Rightarrow> string" where
  "trim s = rev (dropWhile isSpace (rev (dropWhile isSpace s)))"

text \<open>
  A global regular-expression replacement of every maximal run of characters of a class
  by one character: \<^verbatim>\<open>.replace(/\s+/g, '-')\<close> is \<open>squeeze isSpace CHR ''-''\<close> and
  \<^verbatim>\<open>.replace(/-+/g, '-')\<close> is \<open>squeeze (\<lambda>c. c = CHR ''-'') CHR ''-''\<close>. The flag says
  that the previous character belonged to the run.
\<close>

fun squeezeFrom :: "bool \<Rightarrow> (char \<Rightarrow> bool) \<Rightarrow> char \<Rightarrow> string \<Rightarrow> string" where
  "squeezeFrom inRun P r [] = []"
| "squeezeFrom inRun P r (c # cs) =
     (if P c then (if inRun then squeezeFrom True P r cs else r # squeezeFrom True P r cs)
      else c # squeezeFrom False P r cs)"

definition squeeze :: "(char \<Rightarrow> bool) \<Rightarrow> char \<Rightarrow> string \<Rightarrow> string" where
  "squeeze P r s = squeezeFrom False P r s"

text \<open>
  Numbers. \<^verbatim>\<open>parseInt(s)\<close> without a radix skips leading white space, reads a sign, a
  \<^verbatim>\<open>0x\<close> prefix and the longest run of digits; no digit gives \<^verbatim>\<open>NaN\<close>, here \<open>None\<close>.
  Every comparison with \<^verbatim>\<open>NaN\<close> is false. The value is kept as the exact integer: the
  source holds the double nearest to it, which lies on the same side of every threshold it
  is compared with, the thresholds being integers below \<open>2^53\<close>.
\<close>

definition digitVal :: "char \<Rightarrow> nat" where
  "digitVal c = of_char c - 48"

definition digitsVal :: "string \<Rightarrow> nat" where
  "digitsVal ds = foldl (\<lambda>a c. 10 * a + digitVal c) 0 ds"

definition isHexDigit :: "char \<Rightarrow> bool" where
  "isHexDigit c =
     (let n = (of_char c :: nat)
      in (48 \<le> n \<and> n \<le> 57) \<or> (65 \<le> n \<and> n \<le> 70) \<or> (97 \<le> n \<and> n \<le> 102))"

definition hexVal :: "char \<Rightarrow> nat" where
  "hexVal c =
     (let n = (of_char c :: nat)
      in if n \<le> 57 then n - 48 else if n \<le> 70 then n - 55 else n - 87)"

definition hexDigitsVal :: "string \<Rightarrow> nat" where
  "hexDigitsVal ds = foldl (\<lambda>a c. 16 * a + hexVal c) 0 ds"

text \<open>The optional sign of a numeric literal: whether it is negative, and the rest.\<close>

fun readSign :: "string \<Rightarrow> bool \<times> string" where
  "readSign [] = (False, [])"
| "readSign (c # cs) =
     (if c = CHR ''-'' then (True, cs) else if c = CHR ''+'' then (False, cs)
      else (False, c # cs))"

definition parseInt :: "string \<Rightarrow> int option" where
  "parseInt s =
     (let (neg, t) = readSign (dropWhile isSpace s);
          sgn = (if neg then - 1 else 1)
      in if prefix ''0x'' t \<or> prefix ''0X'' t
         then (let ds = takeWhile isHexDigit (drop 2 t)
               in if ds = [] then None else Some (sgn * int (hexDigitsVal ds)))
         else (let ds = takeWhile isDigit t
               in if ds = [] then None else Some (sgn * int (digitsVal ds))))"

text \<open>
  A number of the source is a double. A finite double is the rational it stands for; the
  two zeros are one value, as nothing in the source tells them apart.
\<close>

datatype jsnum = NaN | Fin rat | PosInf | NegInf

fun negateNum :: "jsnum \<Rightarrow> jsnum" where
  "negateNum NaN = NaN"
| "negateNum (Fin x) = Fin (- x)"
| "negateNum PosInf = NegInf"
| "negateNum NegInf = PosInf"

text \<open>
  The double nearest to a rational \<open>x > 0\<close>. With \<open>2^e \<le> x < 2^(e+1)\<close>, the doubles
  around \<open>x\<close> are the multiples of \<open>2^(e-52)\<close>, and of \<open>2^(-1074)\<close> below \<open>2^(-1022)\<close>;
  \<open>x\<close> goes to the nearest multiple \<open>m * 2^k\<close>, a tie to the even \<open>m\<close>, and to infinity
  when that multiple is \<open>2^1024\<close>. \<open>bitLength n\<close> is the number of binary digits of a
  positive integer \<open>n\<close>, so that \<open>2^(bitLength n - 1) \<le> n < 2^(bitLength n)\<close>.
\<close>

function bitLength :: "int \<Rightarrow> int" where
  "bitLength n = (if n \<le> 0 then 0 else 1 + bitLength (n div 2))"
  by pat_completeness auto
termination
  by (relation "measure nat") auto

declare bitLength.simps [simp del]

definition pow2 :: "int \<Rightarrow> rat" where
  "pow2 e = (if 0 \<le> e then 2 ^ nat e else 1 / 2 ^ nat (- e))"

definition roundHalfEven :: "rat \<Rightarrow> int" where
  "roundHalfEven x =
     (let f = \<lfloor>x\<rfloor>; r = x - of_int f
      in if r < 1 / 2 then f else if 1 / 2 < r then f + 1 else if even f then f else f + 1)"

definition binaryExponent :: "rat \<Rightarrow> int" where
  "binaryExponent x =
     (let (p, q) = quotient_of x;
          e = bitLength p - bitLength q
      in if pow2 e \<le> x then e else e - 1)"

definition nearestDouble :: "rat \<Rightarrow> jsnum" where
  "nearestDouble x =
     (if x = 0 then Fin 0
      else (let k = max (binaryExponent x) (- 1022) - 52;
                m = roundHalfEven (x / pow2 k)
            in if 1024 < bitLength m + k then PosInf else Fin (of_int m * pow2 k)))"

text \<open>
  \<^verbatim>\<open>parseFloat(s)\<close> reads the longest prefix that is a decimal literal: a sign, then
  \<^verbatim>\<open>Infinity\<close> or digits with an optional fraction and an optional exponent. Its value
  is the double nearest to the decimal that the literal denotes.
\<close>

fun readExponent :: "string \<Rightarrow> int" where
  "readExponent [] = 0"
| "readExponent (c # cs) =
     (if c = CHR ''e'' \<or> c = CHR ''E''
      then (let (neg, t) = readSign cs; ds = takeWhile isDigit t
            in if ds = [] then 0 else if neg then - int (digitsVal ds) else int (digitsVal ds))
      else 0)"

fun readFraction :: "string \<Rightarrow> string \<times> string" where
  "readFraction [] = ([], [])"
| "readFraction (c # cs) =
     (if c = CHR ''.'' then (takeWhile isDigit cs, dropWhile isDigit cs) else ([], c # cs))"

definition scale10 :: "rat \<Rightarrow> int \<Rightarrow> rat" where
  "scale10 m e = (if 0 \<le> e then m * 10 ^ nat e else m / 10 ^ nat (- e))"

definition digitsInt :: "string \<Rightarrow> int" where
  "digitsInt ds = foldl (\<lambda>a c. 10 * a + int (digitVal c)) 0 ds"

definition parseFloat :: "string \<Rightarrow> jsnum" where
  "parseFloat s =
     (let (neg, t) = readSign (dropWhile isSpace s)
      in if prefix ''Infinity'' t then (if neg then NegInf else PosInf)
         else (let ip = takeWhile isDigit t;
                   (fp, r) = readFraction (dropWhile isDigit t)
               in if ip = [] \<and> fp = [] then NaN
                  else (let m = of_int (digitsInt (ip @ fp));
                            v = nearestDouble (scale10 m (readExponent r - int (length fp)))
                        in if neg then negateNum v else v)))"

text \<open>\<^verbatim>\<open>x >= n\<close> for a parsed number \<open>x\<close>.\<close>

fun geInt :: "int option \<Rightarrow> int \<Rightarrow> bool" where
  "geInt None n = False"
| "geInt (Some x) n = (x \<ge> n)"

fun geNum :: "jsnum \<Rightarrow> rat \<Rightarrow> bool" where
  "geNum NaN n = False"
| "geNum (Fin x) n = (x \<ge> n)"
| "geNum PosInf n = True"
| "geNum NegInf n = False"

text \<open>\<^verbatim>\<open>Math.round(x)\<close>: the integer nearest to \<open>x\<close>, a tie going up.\<close>

definition mathRound :: "rat \<Rightarrow> int" where
  "mathRound x = \<lfloor>x + 1 / 2\<rfloor>"

section \<open>Data model\<close>

text \<open>The classification result of one row (\<^verbatim>\<open>productInfo\<close> in the source).\<close>

record productInfo =
  productType :: string
  displaySize :: string
  processor :: string
  storage :: string
  memory :: string
  year :: string
  modelNumber :: string

text \<open>
  A spreadsheet row is an object with string keys; \<^verbatim>\<open>item['Stock']\<close> of a missing key is
  \<^verbatim>\<open>undefined\<close>, which every use in the source replaces by a default through \<^verbatim>\<open>||\<close>,
  as it does an empty cell.
\<close>

type_synonym row = "(string \<times> string) list"

definition field :: "row \<Rightarrow> string \<Rightarrow> string" where
  "field item k = (case map_of item k of None \<Rightarrow> [] | Some v \<Rightarrow> v)"

text \<open>\<^verbatim>\<open>a || b\<close> on strings.\<close>

definition orElse :: "string \<Rightarrow> string \<Rightarrow> string" where
  "orElse a b = (if a \<noteq> [] then a else b)"

text \<open>
  The colour that \<^verbatim>\<open>cleanColor\<close> returns for a cell. It is a string, except for two
  cells: \<^verbatim>\<open>cleanColor\<close> looks the cleaned text up in an object literal, and such a
  lookup also finds the properties that every object inherits. The two of them whose names
  are written in small letters are \<^verbatim>\<open>constructor\<close>, the function \<^verbatim>\<open>Object\<close>, and
  \<^verbatim>\<open>__proto__\<close>, the object \<^verbatim>\<open>Object.prototype\<close>. \<open>colorText\<close> is the text of a colour in
  a template literal. \<open>inheritedNames\<close> are the names of all the properties that an
  object literal inherits.
\<close>

datatype colorValue = ColorString string | ObjectConstructor | ObjectPrototype

definition inheritedNames :: "string list" where
  "inheritedNames =
     [''constructor'', ''__defineGetter__'', ''__defineSetter__'', ''hasOwnProperty'',
      ''__lookupGetter__'', ''__lookupSetter__'', ''isPrototypeOf'', ''propertyIsEnumerable'',
      ''toString'', ''valueOf'', ''__proto__'', ''toLocaleString'']"

fun colorText :: "colorValue \<Rightarrow> string" where
  "colorText (ColorString s) = s"
| "colorText ObjectConstructor = ''function Object() { [native code] }''"
| "colorText ObjectPrototype = ''[object Object]''"

text \<open>
  The three variant axes are fields of a stock item, of a variant bucket and of an entry
  of the aggregation in \<^verbatim>\<open>createAdvancedVariants\<close>; the three records extend one record
  that holds them. The type of the colour is a parameter of these records: it is
  \<open>colorValue\<close> in the groups that \<^verbatim>\<open>createProductGroups\<close> builds and \<open>string\<close> in the
  groups of a sync request. Where two records of the source have a field of the same name,
  the later record's field carries a suffix (\<open>_b\<close> bucket, \<open>_m\<close> aggregation entry,
  \<open>_p\<close> and \<open>_v\<close> existing remote product and variant).
\<close>

record 'c variantAxes =
  color :: 'c
  condition :: string
  keyboardLayout :: string

text \<open>
  One physical unit. The field \<^verbatim>\<open>dateAdded\<close> of the source is the time of the call and
  is not part of the model.
\<close>

record 'c stockItem = "'c variantAxes" +
  stockId :: string
  serialNumber :: string
  comments :: string
  originalData :: row

record 'c variantBucket = "'c variantAxes" +
  conditionDescription :: string
  quantity :: nat
  stockItems_b :: "'c stockItem list"
  sku_b :: string
  price_b :: int
  compareAtPrice :: int

text \<open>
  A product group extends the spec it was created from, and the source passes a group
  wherever a spec is expected. Objects are association lists in insertion order, which is
  the order in which \<^verbatim>\<open>Object.entries\<close> lists keys that are not array indices; no
  grouping key or variant key is one, as the first starts with a product type of the
  classifier and the second ends with a keyboard layout. A group that arrives in a sync
  request may lack
  \<^verbatim>\<open>totalUnits\<close> or \<^verbatim>\<open>basePrice\<close>, which is \<open>None\<close>; a missing list is the empty list.
  The fields \<^verbatim>\<open>seoDescription\<close>, \<^verbatim>\<open>productDescription\<close>, \<^verbatim>\<open>collections\<close>, \<^verbatim>\<open>tags\<close>,
  \<^verbatim>\<open>shopifyProductId\<close> and \<^verbatim>\<open>lastUpdated\<close> are not part of the model.
\<close>

record 'c productGroup = productInfo +
  seoTitle :: string
  seoHandle :: string
  basePrice :: "int option"
  retailPrice :: int
  totalUnits :: "nat option"
  variants :: "(string \<times> 'c variantBucket) list"
  stockItems :: "'c stockItem list"

text \<open>
  An entry of \<^verbatim>\<open>variantMap\<close> in \<^verbatim>\<open>createAdvancedVariants\<close>, and a variant as it is sent to
  the catalog. The payload fields that are the same constant in every variant
  (\<^verbatim>\<open>inventory_management\<close>, \<^verbatim>\<open>inventory_policy\<close>, \<^verbatim>\<open>weight_unit\<close>, \<^verbatim>\<open>requires_shipping\<close>,
  \<^verbatim>\<open>taxable\<close>, \<^verbatim>\<open>fulfillment_service\<close>) and the \<^verbatim>\<open>weight\<close> are not part of the model;
  \<open>price\<close> and \<open>compare_at_price\<close> are the numbers whose decimal strings the source
  sends, and a \<^verbatim>\<open>null\<close> or missing field is \<open>None\<close>.
\<close>

record aggregatedVariant = "string variantAxes" +
  inventory_quantity_m :: nat
  stockItems_m :: "string stockItem list"
  skus :: "string list"
  barcodes :: "string list"

record variantOptions =
  option1 :: string
  option2 :: string
  option3 :: string

record shopifyVariant = variantOptions +
  title :: string
  inventory_quantity :: nat
  sku :: string
  barcode :: "string option"
  price :: int
  compare_at_price :: "int option"

text \<open>
  A product of the catalog as \<^verbatim>\<open>getAllExistingProductsAdvanced\<close> fetched it, with its
  variants; the stock level of a remote variant may be missing.
\<close>

record existingVariant = variantOptions +
  id_v :: nat
  inventory_quantity_v :: "int option"

record existingProduct =
  id_p :: nat
  title_p :: string
  variants_p :: "existingVariant list"

text \<open>
  The calls of the reconciler to the catalog that change products:
  \<^verbatim>\<open>PUT products/{id}.json\<close> with the title, \<^verbatim>\<open>PUT variants/{id}.json\<close> with the
  inventory quantity, price, compare-at price and SKU, \<^verbatim>\<open>POST products/{id}/variants.json\<close>
  and \<^verbatim>\<open>POST products.json\<close> with the title, the handle and the variants. The calls
  that follow a successful creation (images, collection membership) catch their own
  errors and are not part of the model.
\<close>

datatype apiCall =
    PutProduct nat string
  | PutVariant nat int int "int option" string
  | PostVariant nat shopifyVariant
  | PostProduct string string "shopifyVariant list"

text \<open>
  The errors that the code modelled throws: a \<^verbatim>\<open>TypeError\<close>, which is that of
  \<^verbatim>\<open>color.substring(0, 2)\<close> on a colour that is not a string in \<^verbatim>\<open>createAdvancedSKU\<close>
  and that of \<^verbatim>\<open>productGroup.basePrice.toString()\<close> on a group without a base price in
  \<^verbatim>\<open>createAdvancedVariants\<close>, and the four failures of a call to the catalog.
\<close>

datatype error =
    TypeError
  | ProductUpdateFailed
  | VariantUpdateFailed
  | VariantCreationFailed
  | ProductCreateFailed

text \<open>The line a group adds to \<^verbatim>\<open>results.details\<close>.\<close>

datatype detail =
    UpdatedDetail string nat "nat option"
  | UpdateFailedSkipped string error
  | CreatedDetail string nat "nat option"
  | CreateFailedDetail string error

text \<open>
  The counters of a sync run. \<open>stockItemsProcessed\<close> adds up \<open>totalUnits\<close> of the groups;
  adding a missing \<open>totalUnits\<close> makes it \<^verbatim>\<open>NaN\<close>, here \<open>None\<close>.
\<close>

record syncResults =
  created :: nat
  updated :: nat
  errors :: nat
  skipped :: nat
  details :: "detail list"
  variantsCreated :: nat
  variantsUpdated :: nat
  stockItemsProcessed :: "nat option"

section \<open>Catalog content generator\<close>

text \<open>\<^verbatim>\<open>createAdvancedSEOTitle\<close>\<close>

definition cleanProcessor :: "string \<Rightarrow> string" where
  "cleanProcessor p =
     replaceFirst '' Chip'' [] (replaceFirst '' chip'' [] (replaceFirst ''Apple '' [] p))"

definition fullTitle :: "'a productInfo_scheme \<Rightarrow> string" where
  "fullTitle p =
     (let title = ''Refurbished '' @ productType p;
          title = (if displaySize p \<noteq> [] then title @ '' '' @ displaySize p else title);
          title = (if processor p \<noteq> [] then title @ '' '' @ cleanProcessor (processor p)
                   else title);
          title = (if year p \<noteq> [] then title @ '' '' @ year p else title);
          specs = (if storage p \<noteq> [] then [storage p] else [])
                  @ (if memory p \<noteq> [] then [memory p] else []);
          title = (if length specs > 0 then title @ '' '' @ join '' '' specs else title)
      in title)"

definition createAdvancedSEOTitle :: "'a productInfo_scheme \<Rightarrow> string" where
  "createAdvancedSEOTitle p =
     (let title = fullTitle p
      in if length title > 60 then take 57 title @ ''...'' else title)"

text \<open>
  \<^verbatim>\<open>calculateRetailPrice\<close>. The price table is an object literal; a product type that
  is not one of its keys gives 999. (A lookup also finds the properties every object
  inherits, such as \<^verbatim>\<open>constructor\<close>; no product type of the classifier is one of those
  names, and the model does not cover them.) All amounts are integers far below \<open>2^53\<close>,
  so the doubles of the source hold them exactly.
\<close>

definition retailPrices :: "(string \<times> int) list" where
  "retailPrices =
     [(''MacBook Pro'', 2799), (''MacBook Air'', 1599), (''MacBook'', 1999),
      (''iPad Pro'', 1399), (''iPad Air'', 899), (''iPad'', 579), (''iPad Mini'', 699),
      (''iPhone 15'', 1129), (''iPhone 14'', 999), (''iPhone 13'', 849),
      (''iPhone 12'', 699), (''iPhone 11'', 579), (''iPhone SE'', 579), (''iPhone'', 849),
      (''iMac'', 1799), (''Mac Studio'', 2799), (''Mac Mini'', 899), (''AirPods'', 229),
      (''Magic Mouse'', 129), (''Magic Keyboard'', 229), (''Apple Accessory'', 129)]"

definition retailBase :: "string \<Rightarrow> int" where
  "retailBase t = (case map_of retailPrices t of Some v \<Rightarrow> v | None \<Rightarrow> 999)"

definition storageAdjust :: "string \<Rightarrow> int" where
  "storageAdjust st =
     (if st \<noteq> [] then
        (let storageNum = parseInt st
         in if geInt storageNum 2000 then 1000
            else if geInt storageNum 1000 then 500
            else if geInt storageNum 512 then 300 else 0)
      else 0)"

definition memoryAdjust :: "string \<Rightarrow> int" where
  "memoryAdjust m =
     (if m \<noteq> [] then
        (let memoryNum = parseInt m
         in if geInt memoryNum 64 then 1400
            else if geInt memoryNum 32 then 800
            else if geInt memoryNum 16 then 500 else 0)
      else 0)"

definition processorAdjust :: "string \<Rightarrow> int" where
  "processorAdjust pr =
     (if str_includes pr ''Max'' then 1000
      else if str_includes pr ''Pro'' then 500
      else if str_includes pr ''Ultra'' then 1500 else 0)"

definition displayAdjust :: "string \<Rightarrow> int" where
  "displayAdjust d =
     (if d \<noteq> [] then
        (let size = parseFloat d
         in if geNum size 16 then 300 else if geNum size 15 then 200 else 0)
      else 0)"

definition calculateRetailPrice :: "'a productInfo_scheme \<Rightarrow> int" where
  "calculateRetailPrice p =
     retailBase (productType p) + storageAdjust (storage p) + memoryAdjust (memory p)
     + processorAdjust (processor p) + displayAdjust (displaySize p)"

text \<open>
  \<^verbatim>\<open>calculateVariantPrice\<close> and \<^verbatim>\<open>calculateComparePrice\<close>. The multipliers are the
  decimal literals of the source; a condition outside the table takes \<open>0.70\<close>. (The
  table is an object literal too; no condition that \<^verbatim>\<open>cleanCondition\<close> returns is the
  name of an inherited property, and the model does not cover those names.)
\<close>

definition conditionMultipliers :: "(string \<times> rat) list" where
  "conditionMultipliers =
     [(''A'', 70 / 100), (''B'', 68 / 100), (''C'', 66 / 100), (''D'', 61 / 100)]"

definition conditionMultiplier :: "string \<Rightarrow> rat" where
  "conditionMultiplier c =
     (case map_of conditionMultipliers c of Some m \<Rightarrow> m | None \<Rightarrow> 70 / 100)"

definition calculateVariantPrice :: "'a productInfo_scheme \<Rightarrow> string \<Rightarrow> int" where
  "calculateVariantPrice p cond =
     (let retail = calculateRetailPrice p
      in mathRound (of_int retail * conditionMultiplier cond))"

definition calculateComparePrice :: "'a productInfo_scheme \<Rightarrow> string \<Rightarrow> int" where
  "calculateComparePrice p cond = calculateRetailPrice p"

text \<open>\<^verbatim>\<open>calculateAdvancedPricing\<close>, the base price of a group.\<close>

definition basePrices :: "(string \<times> int) list" where
  "basePrices =
     [(''MacBook Pro'', 2299), (''MacBook Air'', 1399), (''MacBook'', 1599),
      (''iPad Pro'', 1149), (''iPad Air'', 779), (''iPad'', 449), (''iPad Mini'', 649),
      (''iPhone'', 899), (''iMac'', 1699), (''Mac Studio'', 2499), (''Mac Mini'', 799),
      (''AirPods'', 199), (''Magic Mouse'', 99), (''Magic Keyboard'', 199),
      (''Apple Accessory'', 99)]"

definition calculateAdvancedPricing :: "'a productInfo_scheme \<Rightarrow> int" where
  "calculateAdvancedPricing p =
     (let basePrice = (case map_of basePrices (productType p) of Some v \<Rightarrow> v | None \<Rightarrow> 999);
          basePrice = basePrice +
            (if storage p \<noteq> [] then
               (let storageNum = parseInt (storage p)
                in if geInt storageNum 2000 then 800
                   else if geInt storageNum 1000 then 400
                   else if geInt storageNum 512 then 200 else 0)
             else 0);
          basePrice = basePrice +
            (if memory p \<noteq> [] then
               (let memoryNum = parseInt (memory p)
                in if geInt memoryNum 64 then 1000
                   else if geInt memoryNum 32 then 600
                   else if geInt memoryNum 16 then 400 else 0)
             else 0);
          basePrice = basePrice +
            (if str_includes (processor p) ''Max'' then 800
             else if str_includes (processor p) ''Pro'' then 400
             else if str_includes (processor p) ''Ultra'' then 1200 else 0)
      in basePrice)"

text \<open>\<^verbatim>\<open>createAdvancedGroupingKey\<close>\<close>

definition isKeyChar :: "char \<Rightarrow> bool" where
  "isKeyChar c = (isLower c \<or> isUpper c \<or> isDigit c \<or> c = CHR ''_'')"

definition createAdvancedGroupingKey :: "'a productInfo_scheme \<Rightarrow> string" where
  "createAdvancedGroupingKey p =
     filter isKeyChar
       (join ''_'' (filter (\<lambda>s. s \<noteq> [])
          [productType p, displaySize p, processor p, storage p, memory p, year p]))"

text \<open>
  \<^verbatim>\<open>createAdvancedSKU\<close>. Its argument \<^verbatim>\<open>color\<close> is what \<^verbatim>\<open>cleanColor\<close> returned;
  \<^verbatim>\<open>color.substring(0, 2)\<close> throws a \<^verbatim>\<open>TypeError\<close> when that is not a string, as neither
  the function \<^verbatim>\<open>Object\<close> nor \<^verbatim>\<open>Object.prototype\<close> has a method \<^verbatim>\<open>substring\<close>.
\<close>

definition createAdvancedSKU ::
  "'a productInfo_scheme \<Rightarrow> colorValue \<Rightarrow> string \<Rightarrow> string \<Rightarrow> error + string" where
  "createAdvancedSKU p col cond kb =
     (case col of
        ColorString c \<Rightarrow>
          Inr (join ''-'' (filter (\<lambda>s. s \<noteq> [])
            [toUpperCase (take 4 (filter (\<lambda>c. \<not> isSpace c) (productType p))),
             (if displaySize p \<noteq> [] then take 2 (filter isDigit (displaySize p)) else []),
             (if processor p \<noteq> []
              then toUpperCase (take 3 (filter (\<lambda>c. \<not> isSpace c) (processor p))) else []),
             (if storage p \<noteq> [] then filter isDigit (storage p) else []),
             toUpperCase (take 2 c),
             toUpperCase cond,
             (if kb = ''French Canadian'' then ''FR'' else ''EN'')]))
      | ObjectConstructor \<Rightarrow> Inl TypeError
      | ObjectPrototype \<Rightarrow> Inl TypeError)"

text \<open>
  \<^verbatim>\<open>createSEOOptimizedHandle\<close>. The two global replacements on the processor remove,
  scanning from the left, every \<^verbatim>\<open>apple\<close> followed by white space together with that
  white space, and every run of white space followed by \<^verbatim>\<open>chip\<close> together with it.
\<close>

function removeAppleWs :: "string \<Rightarrow> string" where
  "removeAppleWs [] = []"
| "removeAppleWs (c # cs) =
     (if prefix ''apple'' (c # cs) \<and> drop 5 (c # cs) \<noteq> [] \<and> isSpace (hd (drop 5 (c # cs)))
      then removeAppleWs (dropWhile isSpace (drop 5 (c # cs)))
      else c # removeAppleWs cs)"
  by pat_completeness auto
termination
proof (relation "measure length")
  show "wf (measure length)" by simp
next
  fix c :: char and cs :: string
  have "length (dropWhile isSpace (drop 5 (c # cs))) \<le> length (drop 5 (c # cs))"
    by (rule length_dropWhile_le)
  also have "\<dots> < length (c # cs)" by simp
  finally show "(dropWhile isSpace (drop 5 (c # cs)), c # cs) \<in> measure length" by simp
next
  fix c :: char and cs :: string
  show "(cs, c # cs) \<in> measure length" by simp
qed

function removeWsChip :: "string \<Rightarrow> string" where
  "removeWsChip [] = []"
| "removeWsChip (c # cs) =
     (if isSpace c \<and> prefix ''chip'' (dropWhile isSpace cs)
      then removeWsChip (drop 4 (dropWhile isSpace cs))
      else c # removeWsChip cs)"
  by pat_completeness auto
termination
proof (relation "measure length")
  show "wf (measure length)" by simp
next
  fix c :: char and cs :: string
  have "length (drop 4 (dropWhile isSpace cs)) \<le> length (dropWhile isSpace cs)" by simp
  also have "\<dots> \<le> length cs" by (rule length_dropWhile_le)
  finally show "(drop 4 (dropWhile isSpace cs), c # cs) \<in> measure length" by simp
next
  fix c :: char and cs :: string
  show "(cs, c # cs) \<in> measure length" by simp
qed

definition handleProcessor :: "string \<Rightarrow> string" where
  "handleProcessor pr =
     squeeze isSpace CHR ''-'' (removeWsChip (removeAppleWs (toLowerCase pr)))"

definition isHandleChar :: "char \<Rightarrow> bool" where
  "isHandleChar c = (isLower c \<or> isDigit c \<or> c = CHR ''-'')"

definition stripLeadingHyphen :: "string \<Rightarrow> string" where
  "stripLeadingHyphen s = (case s of [] \<Rightarrow> [] | c # cs \<Rightarrow> if c = CHR ''-'' then cs else s)"

definition stripTrailingHyphen :: "string \<Rightarrow> string" where
  "stripTrailingHyphen s = (if s \<noteq> [] \<and> last s = CHR ''-'' then butlast s else s)"

definition handleComponents :: "'a productInfo_scheme \<Rightarrow> string list" where
  "handleComponents p =
     filter (\<lambda>s. s \<noteq> [])
       [''refurbished'',
        squeeze isSpace CHR ''-'' (toLowerCase (productType p)),
        filter (\<lambda>c. isDigit c \<or> c = CHR ''.'') (displaySize p),
        handleProcessor (processor p),
        year p,
        toLowerCase (storage p),
        toLowerCase (memory p)]"

definition finishHandle :: "string \<Rightarrow> string" where
  "finishHandle s =
     take 255 (stripTrailingHyphen (stripLeadingHyphen
       (squeeze (\<lambda>c. c = CHR ''-'') CHR ''-'' (filter isHandleChar s))))"

definition createSEOOptimizedHandle :: "'a productInfo_scheme \<Rightarrow> string" where
  "createSEOOptimizedHandle p = finishHandle (join ''-'' (handleComponents p))"

section \<open>Grouping and variant aggregation\<close>

text \<open>\<^verbatim>\<open>determineKeyboardLayout\<close>, \<^verbatim>\<open>cleanColor\<close>, \<^verbatim>\<open>cleanCondition\<close>\<close>

definition determineKeyboardLayout :: "row \<Rightarrow> string" where
  "determineKeyboardLayout item =
     (let allText = toLowerCase (orElse (field item ''Model'') [] @ '' ''
                      @ orElse (field item ''Comments'') [] @ '' ''
                      @ orElse (field item ''Processor'') [])
      in if str_includes allText ''french''
            \<or> str_includes allText (''fran'' @ [CHR 0xC3, CHR 0xA7] @ ''ais'')
            \<or> str_includes allText ''fr-ca'' \<or> str_includes allText ''canadian french''
         then ''French Canadian'' else ''English'')"

definition colorMap :: "(string \<times> string) list" where
  "colorMap =
     [(''space grey'', ''Space Gray''), (''space gray'', ''Space Gray''),
      (''spacegrey'', ''Space Gray''), (''spacegray'', ''Space Gray''),
      (''silver'', ''Silver''), (''gold'', ''Gold''), (''rose gold'', ''Rose Gold''),
      (''midnight'', ''Midnight''), (''starlight'', ''Starlight''),
      (''default'', ''Space Gray'')]"

text \<open>
  \<^verbatim>\<open>colorMap[cleanedColor] || color.toString().trim()\<close>: the lookup gives the entry of
  the table, or else the property that the object literal inherits under that name; both
  inherited values are truthy.
\<close>

definition inheritedColor :: "string \<Rightarrow> colorValue option" where
  "inheritedColor k =
     (if k = ''constructor'' then Some ObjectConstructor
      else if k = ''__proto__'' then Some ObjectPrototype else None)"

definition cleanColor :: "string \<Rightarrow> colorValue" where
  "cleanColor c =
     (if c = [] then ColorString ''Space Gray''
      else (let cleanedColor = trim (toLowerCase c)
            in case map_of colorMap cleanedColor of
                 Some v \<Rightarrow> ColorString v
               | None \<Rightarrow> (case inheritedColor cleanedColor of
                            Some v \<Rightarrow> v
                          | None \<Rightarrow> ColorString (trim c))))"

definition cleanCondition :: "string \<Rightarrow> string" where
  "cleanCondition c =
     (if c = [] then ''A''
      else (case filter (\<lambda>x. x \<in> set ''ABCD'') (trim (toUpperCase c)) of
              [] \<Rightarrow> ''A'' | x # _ \<Rightarrow> [x]))"

text \<open>\<^verbatim>\<open>getAdvancedConditionDescription\<close>\<close>

definition conditionDescriptions :: "(string \<times> string) list" where
  "conditionDescriptions =
     [(''A'', ''Excellent condition - Like new appearance with minimal wear. Perfect for professionals who want the best.''),
      (''B'', ''Very good condition - Light cosmetic wear but excellent functionality. Great balance of value and quality.''),
      (''C'', ''Good condition - Visible wear but fully functional. Ideal for budget-conscious buyers who want reliability.''),
      (''D'', ''Fair condition - Heavy wear but guaranteed functionality. Maximum savings for those who prioritize price.'')]"

definition getAdvancedConditionDescription :: "string \<Rightarrow> string" where
  "getAdvancedConditionDescription c =
     (case map_of conditionDescriptions c of
        Some d \<Rightarrow> d | None \<Rightarrow> snd (hd conditionDescriptions))"

text \<open>
  The idiom \<^verbatim>\<open>if (!obj[k]) obj[k] = init; ... obj[k] ...\<close> followed by changes to
  \<^verbatim>\<open>obj[k]\<close>: the entry is created at the end of the object when the key is new and is
  changed in place otherwise. \<open>ensure\<close> is the first statement alone.
\<close>

definition upsert :: "string \<Rightarrow> 'v \<Rightarrow> ('v \<Rightarrow> 'v) \<Rightarrow> (string \<times> 'v) list \<Rightarrow> (string \<times> 'v) list" where
  "upsert k init f obj =
     AList.update k (f (case map_of obj k of None \<Rightarrow> init | Some v \<Rightarrow> v)) obj"

definition ensure :: "string \<Rightarrow> 'v \<Rightarrow> (string \<times> 'v) list \<Rightarrow> (string \<times> 'v) list" where
  "ensure k init obj = (case map_of obj k of None \<Rightarrow> obj @ [(k, init)] | Some v \<Rightarrow> obj)"

text \<open>
  \<^verbatim>\<open>createProductGroups\<close>. The classifier \<^verbatim>\<open>analyzeProductAdvanced\<close> is an argument of the
  model: a function from a row to a spec or to nothing (the \<^verbatim>\<open>null\<close> of an unrecognised
  row; an exception thrown while classifying skips the row too, before anything is
  changed). The body of the loop runs in a \<^verbatim>\<open>try\<close> whose \<^verbatim>\<open>catch\<close> only logs, so an
  exception ends the work on the row and keeps what was done for it before. After the
  classification, two places throw on the strings of a row. A grouping key that is the
  name of an inherited property finds that property in the place of a group, so no group
  is created, and reading the variants of the property throws: the row is dropped and
  nothing is changed (no product type of the classifier gives such a key). And the new
  bucket's \<^verbatim>\<open>createAdvancedSKU\<close> throws on a colour that is not a string: by then the
  group of the row exists, created for this row if it was new, and neither the bucket nor
  the stock item has been added. A row with such a colour whose bucket exists already is
  added like any other. The model returns the map \<^verbatim>\<open>productGroups\<close> of the result; the counters beside
  it (\<^verbatim>\<open>categories\<close>, \<^verbatim>\<open>totalItems\<close>, \<^verbatim>\<open>groupCount\<close>, \<^verbatim>\<open>totalUniqueUnits\<close>) and the two
  descriptions that the source recomputes at the end are not part of the model.
\<close>

definition newGroup :: "productInfo \<Rightarrow> 'c productGroup" where
  "newGroup info =
     \<lparr>productType = productType info, displaySize = displaySize info,
      processor = processor info, storage = storage info, memory = memory info,
      year = year info, modelNumber = modelNumber info,
      seoTitle = createAdvancedSEOTitle info,
      seoHandle = createSEOOptimizedHandle info,
      basePrice = Some (calculateAdvancedPricing info),
      retailPrice = calculateRetailPrice info,
      totalUnits = Some 0, variants = [], stockItems = []\<rparr>"

definition newVariant ::
  "productInfo \<Rightarrow> colorValue \<Rightarrow> string \<Rightarrow> string \<Rightarrow> error + colorValue variantBucket" where
  "newVariant info col cond kb =
     (case createAdvancedSKU info col cond kb of
        Inl e \<Rightarrow> Inl e
      | Inr s \<Rightarrow>
          Inr \<lparr>color = col, condition = cond, keyboardLayout = kb,
               conditionDescription = getAdvancedConditionDescription cond,
               quantity = 0, stockItems_b = [],
               sku_b = s,
               price_b = calculateVariantPrice info cond,
               compareAtPrice = calculateComparePrice info cond\<rparr>)"

definition rowColor :: "row \<Rightarrow> colorValue" where
  "rowColor item = cleanColor (orElse (orElse (field item ''Color'') (field item ''color'')) ''Space Gray'')"

definition rowCondition :: "row \<Rightarrow> string" where
  "rowCondition item = cleanCondition (orElse (orElse (field item ''Condition'') (field item ''condition'')) ''A'')"

definition rowVariantKey :: "row \<Rightarrow> string" where
  "rowVariantKey item =
     colorText (rowColor item) @ ''-'' @ rowCondition item @ ''-'' @ determineKeyboardLayout item"

definition rowStockItem :: "row \<Rightarrow> colorValue stockItem" where
  "rowStockItem item =
     \<lparr>color = rowColor item, condition = rowCondition item,
      keyboardLayout = determineKeyboardLayout item,
      stockId = orElse (orElse (field item ''Stock'') (field item ''stock'')) [],
      serialNumber = orElse (orElse (orElse (field item ''Serial Number'') (field item ''serial''))
                       (field item ''Serial'')) [],
      comments = orElse (orElse (field item ''Comments'') (field item ''comments'')) [],
      originalData = item\<rparr>"

definition addToVariant :: "'c stockItem \<Rightarrow> 'c variantBucket \<Rightarrow> 'c variantBucket" where
  "addToVariant si v = v\<lparr>stockItems_b := stockItems_b v @ [si], quantity := quantity v + 1\<rparr>"

text \<open>
  The part of the loop body after the group exists: the bucket of the row, created when
  its key is new, then the stock item added to the bucket and to the group.
\<close>

definition addToGroup ::
  "productInfo \<Rightarrow> row \<Rightarrow> colorValue productGroup \<Rightarrow> error + colorValue productGroup" where
  "addToGroup info item g =
     (let variantKey = rowVariantKey item;
          bucket = (case map_of (variants g) variantKey of
                      Some b \<Rightarrow> Inr b
                    | None \<Rightarrow> newVariant info (rowColor item) (rowCondition item)
                                (determineKeyboardLayout item))
      in case bucket of
           Inl e \<Rightarrow> Inl e
         | Inr b \<Rightarrow>
             Inr (g\<lparr>variants := AList.update variantKey (addToVariant (rowStockItem item) b)
                                  (variants g),
                    stockItems := stockItems g @ [rowStockItem item],
                    totalUnits := map_option Suc (totalUnits g)\<rparr>))"

definition processItem ::
  "(row \<Rightarrow> productInfo option) \<Rightarrow> (string \<times> colorValue productGroup) list \<Rightarrow> row
   \<Rightarrow> (string \<times> colorValue productGroup) list" where
  "processItem analyzeProductAdvanced productGroups item =
     (case analyzeProductAdvanced item of
        None \<Rightarrow> productGroups
      | Some info \<Rightarrow>
          (let groupKey = createAdvancedGroupingKey info
           in if groupKey \<in> set inheritedNames then productGroups
              else (let initialised = ensure groupKey (newGroup info) productGroups;
                        g = (case map_of productGroups groupKey of
                               None \<Rightarrow> newGroup info | Some g \<Rightarrow> g)
                    in case addToGroup info item g of
                         Inl e \<Rightarrow> initialised
                       | Inr g' \<Rightarrow> AList.update groupKey g' initialised)))"

definition createProductGroups ::
  "(row \<Rightarrow> productInfo option) \<Rightarrow> row list \<Rightarrow> (string \<times> colorValue productGroup) list" where
  "createProductGroups analyzeProductAdvanced appleProducts =
     foldl (processItem analyzeProductAdvanced) [] appleProducts"

text \<open>
  The way of a group to the reconciler: the upload answers with the groups as JSON, and a
  sync request sends them back. A colour that is a string arrives as it is. The object
  \<^verbatim>\<open>Object.prototype\<close> arrives as an empty object and the function \<^verbatim>\<open>Object\<close> is left
  out; the model of the reconciler, in which a colour is a string, has no group for a
  group with such a colour.
\<close>

definition requestColor :: "colorValue \<Rightarrow> string option" where
  "requestColor c =
     (case c of ColorString s \<Rightarrow> Some s | ObjectConstructor \<Rightarrow> None | ObjectPrototype \<Rightarrow> None)"

definition requestItem :: "colorValue stockItem \<Rightarrow> string stockItem option" where
  "requestItem si =
     map_option
       (\<lambda>c. \<lparr>color = c, condition = condition si, keyboardLayout = keyboardLayout si,
             stockId = stockId si, serialNumber = serialNumber si, comments = comments si,
             originalData = originalData si\<rparr>)
       (requestColor (color si))"

definition requestBucket :: "colorValue variantBucket \<Rightarrow> string variantBucket option" where
  "requestBucket b =
     (case (requestColor (color b), those (map requestItem (stockItems_b b))) of
        (Some c, Some items) \<Rightarrow>
          Some \<lparr>color = c, condition = condition b, keyboardLayout = keyboardLayout b,
                conditionDescription = conditionDescription b, quantity = quantity b,
                stockItems_b = items, sku_b = sku_b b, price_b = price_b b,
                compareAtPrice = compareAtPrice b\<rparr>
      | _ \<Rightarrow> None)"

definition requestGroup :: "colorValue productGroup \<Rightarrow> string productGroup option" where
  "requestGroup g =
     (case (those (map (\<lambda>kv. map_option (Pair (fst kv)) (requestBucket (snd kv))) (variants g)),
            those (map requestItem (stockItems g))) of
        (Some vs, Some items) \<Rightarrow>
          Some \<lparr>productType = productType g, displaySize = displaySize g,
                processor = processor g, storage = storage g, memory = memory g,
                year = year g, modelNumber = modelNumber g,
                seoTitle = seoTitle g, seoHandle = seoHandle g, basePrice = basePrice g,
                retailPrice = retailPrice g, totalUnits = totalUnits g,
                variants = vs, stockItems = items\<rparr>
      | _ \<Rightarrow> None)"

section \<open>Catalog reconciler\<close>

text \<open>
  \<^verbatim>\<open>createAdvancedVariants\<close>. A stock item without a stock id or without a serial number
  is skipped; the others are aggregated by \<^verbatim>\<open>color|condition|keyboardLayout\<close>.
\<close>

definition validItem :: "string stockItem \<Rightarrow> bool" where
  "validItem si = (stockId si \<noteq> [] \<and> serialNumber si \<noteq> [])"

definition itemVariantKey :: "(string, 'a) variantAxes_scheme \<Rightarrow> string" where
  "itemVariantKey si = color si @ ''|'' @ condition si @ ''|'' @ keyboardLayout si"

definition newAggregated :: "string stockItem \<Rightarrow> aggregatedVariant" where
  "newAggregated si =
     \<lparr>color = color si, condition = condition si, keyboardLayout = keyboardLayout si,
      inventory_quantity_m = 0, stockItems_m = [], skus = [], barcodes = []\<rparr>"

definition addToAggregated :: "string stockItem \<Rightarrow> aggregatedVariant \<Rightarrow> aggregatedVariant" where
  "addToAggregated si e =
     e\<lparr>inventory_quantity_m := inventory_quantity_m e + 1,
       stockItems_m := stockItems_m e @ [si],
       skus := skus e @ [stockId si],
       barcodes := barcodes e @ [serialNumber si]\<rparr>"

definition aggregateItem ::
  "(string \<times> aggregatedVariant) list \<Rightarrow> string stockItem \<Rightarrow> (string \<times> aggregatedVariant) list" where
  "aggregateItem variantMap si =
     (if \<not> validItem si then variantMap
      else upsert (itemVariantKey si) (newAggregated si) (addToAggregated si) variantMap)"

definition shopifyVariantOf :: "'a productInfo_scheme \<Rightarrow> aggregatedVariant \<Rightarrow> shopifyVariant" where
  "shopifyVariantOf g e =
     (let p = calculateVariantPrice g (condition e);
          compareAt = calculateComparePrice g (condition e)
      in \<lparr>option1 = color e, option2 = ''Grade '' @ condition e, option3 = keyboardLayout e,
          title = color e @ '' - Grade '' @ condition e @ '' - '' @ keyboardLayout e,
          inventory_quantity = inventory_quantity_m e,
          sku = join ''-'' (skus e),
          barcode = (case barcodes e of [] \<Rightarrow> None | b # _ \<Rightarrow> Some b),
          price = p,
          compare_at_price = (if compareAt > p then Some compareAt else None)\<rparr>)"

text \<open>
  \<^verbatim>\<open>variants.sort(...)\<close>. The comparator orders by the three options with
  \<^verbatim>\<open>localeCompare\<close>, which depends on the collation of the runtime and is an argument of
  the model. \<^verbatim>\<open>Array.prototype.sort\<close> is stable; it is an insertion sort here, in
  which an element goes before the first later element that it does not follow.
\<close>

definition compareVariants ::
  "(string \<Rightarrow> string \<Rightarrow> int) \<Rightarrow> shopifyVariant \<Rightarrow> shopifyVariant \<Rightarrow> int" where
  "compareVariants localeCompare a b =
     (if option1 a \<noteq> option1 b then localeCompare (option1 a) (option1 b)
      else if option2 a \<noteq> option2 b then localeCompare (option2 a) (option2 b)
      else localeCompare (option3 a) (option3 b))"

fun insertSorted :: "('a \<Rightarrow> 'a \<Rightarrow> int) \<Rightarrow> 'a \<Rightarrow> 'a list \<Rightarrow> 'a list" where
  "insertSorted cmp x [] = [x]"
| "insertSorted cmp x (y # ys) =
     (if cmp x y \<le> 0 then x # y # ys else y # insertSorted cmp x ys)"

definition sortWith :: "('a \<Rightarrow> 'a \<Rightarrow> int) \<Rightarrow> 'a list \<Rightarrow> 'a list" where
  "sortWith cmp xs = foldr (insertSorted cmp) xs []"

text \<open>\<^verbatim>\<open>createVariantSKU\<close>, used for the default variant.\<close>

definition createVariantSKU ::
  "'a productInfo_scheme \<Rightarrow> string \<Rightarrow> string \<Rightarrow> string \<Rightarrow> string \<Rightarrow> string" where
  "createVariantSKU g col cond kb sid =
     join ''-'' (filter (\<lambda>s. s \<noteq> [])
       [(if productType g \<noteq> []
         then toUpperCase (take 4 (filter (\<lambda>c. \<not> isSpace c) (productType g))) else ''PROD''),
        (if displaySize g \<noteq> [] then take 2 (filter isDigit (displaySize g)) else []),
        (if processor g \<noteq> []
         then toUpperCase (take 3 (filter (\<lambda>c. \<not> isSpace c) (processor g))) else []),
        (if storage g \<noteq> [] then filter isDigit (storage g) else []),
        (if col \<noteq> [] then toUpperCase (take 2 col) else ''SG''),
        (if cond \<noteq> [] then toUpperCase cond else ''A''),
        (if kb = ''French Canadian'' then ''FR'' else ''EN''),
        (if sid \<noteq> [] then drop (length sid - 4) sid else [])])"

definition defaultVariant :: "string productGroup \<Rightarrow> int \<Rightarrow> shopifyVariant" where
  "defaultVariant g bp =
     \<lparr>option1 = ''Space Gray'', option2 = ''Grade A'', option3 = ''English'',
      title = ''Default - Grade A - English'',
      inventory_quantity = (case totalUnits g of None \<Rightarrow> 0 | Some n \<Rightarrow> n),
      sku = createVariantSKU g ''Space Gray'' ''A'' ''English'' [],
      barcode = None, price = bp, compare_at_price = None\<rparr>"

definition createAdvancedVariants ::
  "(string \<Rightarrow> string \<Rightarrow> int) \<Rightarrow> string productGroup \<Rightarrow> error + shopifyVariant list" where
  "createAdvancedVariants localeCompare g =
     (let variantMap = foldl aggregateItem [] (stockItems g);
          vs = sortWith (compareVariants localeCompare)
                 (map (\<lambda>kv. shopifyVariantOf g (snd kv)) variantMap)
      in if length vs = 0
         then (case basePrice g of
                 None \<Rightarrow> Inl TypeError
               | Some bp \<Rightarrow> Inr [defaultVariant g bp])
         else Inr vs)"

text \<open>
  A call to the catalog. The answers of the catalog are an argument of the model: \<open>ok n\<close>
  says whether the call number \<open>n\<close> of the run is answered with success; a call that is
  refused or that fails on the network throws in the same way in every place modelled.
  The call is added to the calls made so far.
\<close>

definition fetch :: "(nat \<Rightarrow> bool) \<Rightarrow> apiCall \<Rightarrow> apiCall list \<Rightarrow> bool \<times> apiCall list" where
  "fetch ok c calls = (ok (length calls), calls @ [c])"

text \<open>\<^verbatim>\<open>findExistingProductAdvanced\<close>\<close>

definition findExistingProductAdvanced ::
  "existingProduct list \<Rightarrow> string productGroup \<Rightarrow> existingProduct option" where
  "findExistingProductAdvanced existingProducts g =
     (let searchTitle = toLowerCase (seoTitle g)
      in find (\<lambda>product. toLowerCase (title_p product) = searchTitle) existingProducts)"

text \<open>
  \<^verbatim>\<open>updateExistingProductAdvanced\<close>: the loop over the new variants, with the counters
  \<^verbatim>\<open>variantsUpdated\<close> and \<^verbatim>\<open>variantsCreated\<close>, then the function.
\<close>

definition currentInventory :: "existingVariant \<Rightarrow> int" where
  "currentInventory ev = (case inventory_quantity_v ev of None \<Rightarrow> 0 | Some q \<Rightarrow> q)"

definition sameOptions :: "shopifyVariant \<Rightarrow> existingVariant \<Rightarrow> bool" where
  "sameOptions newV v =
     (option1 v = option1 newV \<and> option2 v = option2 newV \<and> option3 v = option3 newV)"

fun processVariants ::
  "(nat \<Rightarrow> bool) \<Rightarrow> existingProduct \<Rightarrow> shopifyVariant list \<Rightarrow> nat \<times> nat \<Rightarrow> apiCall list
   \<Rightarrow> (error + nat \<times> nat) \<times> apiCall list" where
  "processVariants ok ep [] counters calls = (Inr counters, calls)"
| "processVariants ok ep (newV # rest) (nUpdated, nCreated) calls =
     (case find (sameOptions newV) (variants_p ep) of
        Some ev \<Rightarrow>
          (let newInventory = currentInventory ev + int (inventory_quantity newV);
               (r, calls') = fetch ok (PutVariant (id_v ev) newInventory (price newV)
                                         (compare_at_price newV) (sku newV)) calls
           in if r then processVariants ok ep rest (nUpdated + 1, nCreated) calls'
              else (Inl VariantUpdateFailed, calls'))
      | None \<Rightarrow>
          (let (r, calls') = fetch ok (PostVariant (id_p ep) newV) calls
           in if r then processVariants ok ep rest (nUpdated, nCreated + 1) calls'
              else (Inl VariantCreationFailed, calls')))"

definition updateExistingProductAdvanced ::
  "(nat \<Rightarrow> bool) \<Rightarrow> (string \<Rightarrow> string \<Rightarrow> int) \<Rightarrow> existingProduct \<Rightarrow> string productGroup \<Rightarrow> apiCall list
   \<Rightarrow> (error + nat \<times> nat option) \<times> apiCall list" where
  "updateExistingProductAdvanced ok localeCompare ep g calls =
     (let (r, calls1) = fetch ok (PutProduct (id_p ep) (seoTitle g)) calls
      in if \<not> r then (Inl ProductUpdateFailed, calls1)
         else (case createAdvancedVariants localeCompare g of
                 Inl e \<Rightarrow> (Inl e, calls1)
               | Inr newVariants \<Rightarrow>
                   (case processVariants ok ep newVariants (0, 0) calls1 of
                      (Inl e, calls2) \<Rightarrow> (Inl e, calls2)
                    | (Inr (nUpdated, nCreated), calls2) \<Rightarrow>
                        (Inr (nUpdated, totalUnits g), calls2))))"

text \<open>
  \<^verbatim>\<open>createNewProductAdvanced\<close>; its result is \<^verbatim>\<open>variantsCreated\<close> and
  \<^verbatim>\<open>stockItemsProcessed\<close>.
\<close>

definition createNewProductAdvanced ::
  "(nat \<Rightarrow> bool) \<Rightarrow> (string \<Rightarrow> string \<Rightarrow> int) \<Rightarrow> string productGroup \<Rightarrow> apiCall list
   \<Rightarrow> (error + nat \<times> nat option) \<times> apiCall list" where
  "createNewProductAdvanced ok localeCompare g calls =
     (case createAdvancedVariants localeCompare g of
        Inl e \<Rightarrow> (Inl e, calls)
      | Inr vs \<Rightarrow>
          (let (r, calls1) = fetch ok (PostProduct (seoTitle g) (createSEOOptimizedHandle g) vs) calls
           in if \<not> r then (Inl ProductCreateFailed, calls1)
              else (Inr (length vs, totalUnits g), calls1)))"

text \<open>
  The loop of \<^verbatim>\<open>app.post('/api/sync-shopify')\<close> over the groups, after the connection test,
  the fetch of the existing products and the set-up of the collections. The state is the
  result counters and the calls made so far. The outer \<^verbatim>\<open>catch\<close> of the loop body is
  reached only by an exception outside the two inner \<^verbatim>\<open>try\<close> blocks (an existing product
  without a title, a group without \<^verbatim>\<open>variants\<close>), which the types of the model exclude;
  the pauses between calls are not part of the model.
\<close>

fun addProcessed :: "nat option \<Rightarrow> nat option \<Rightarrow> nat option" where
  "addProcessed (Some a) (Some b) = Some (a + b)"
| "addProcessed _ _ = None"

definition syncGroup ::
  "(nat \<Rightarrow> bool) \<Rightarrow> (string \<Rightarrow> string \<Rightarrow> int) \<Rightarrow> existingProduct list
   \<Rightarrow> syncResults \<times> apiCall list \<Rightarrow> string productGroup \<Rightarrow> syncResults \<times> apiCall list" where
  "syncGroup ok localeCompare existingProducts st g =
     (let (results, calls) = st
      in case findExistingProductAdvanced existingProducts g of
           Some ep \<Rightarrow>
             (case updateExistingProductAdvanced ok localeCompare ep g calls of
                (Inr (nUpdated, nItems), calls') \<Rightarrow>
                  (results\<lparr>updated := updated results + 1,
                           variantsUpdated := variantsUpdated results + nUpdated,
                           stockItemsProcessed := addProcessed (stockItemsProcessed results) nItems,
                           details := details results @ [UpdatedDetail (seoTitle g) nUpdated nItems]\<rparr>,
                   calls')
              | (Inl e, calls') \<Rightarrow>
                  (results\<lparr>errors := errors results + 1,
                           details := details results @ [UpdateFailedSkipped (seoTitle g) e]\<rparr>,
                   calls'))
         | None \<Rightarrow>
             (case createNewProductAdvanced ok localeCompare g calls of
                (Inr (nCreated, nItems), calls') \<Rightarrow>
                  (results\<lparr>created := created results + 1,
                           variantsCreated := variantsCreated results + nCreated,
                           stockItemsProcessed := addProcessed (stockItemsProcessed results) nItems,
                           details := details results @ [CreatedDetail (seoTitle g) nCreated nItems]\<rparr>,
                   calls')
              | (Inl e, calls') \<Rightarrow>
                  (results\<lparr>errors := errors results + 1,
                           details := details results @ [CreateFailedDetail (seoTitle g) e]\<rparr>,
                   calls')))"

definition initialResults :: syncResults where
  "initialResults =
     \<lparr>created = 0, updated = 0, errors = 0, skipped = 0, details = [],
      variantsCreated = 0, variantsUpdated = 0, stockItemsProcessed = Some 0\<rparr>"

definition syncShopify ::
  "(nat \<Rightarrow> bool) \<Rightarrow> (string \<Rightarrow> string \<Rightarrow> int) \<Rightarrow> existingProduct list
   \<Rightarrow> (string \<times> string productGroup) list \<Rightarrow> syncResults \<times> apiCall list" where
  "syncShopify ok localeCompare existingProducts productGroups =
     foldl (syncGroup ok localeCompare existingProducts) (initialResults, [])
       (map snd productGroups)"

section \<open>Product description\<close>

text \<open>
  \<^verbatim>\<open>createAdvancedProductDescription\<close>. The description is one template string. The
  part of it that is modelled is the block of frequently asked questions: the source puts
  a pool of eight entries, the last of which names the keyboards of the variants, in a
  random order by \<^verbatim>\<open>[...faqPool].sort(() => 0.5 - Math.random())\<close> and renders the first
  four. The order in which that sort leaves the pool depends on the draws of
  \<^verbatim>\<open>Math.random\<close> and on the sorting algorithm of the runtime; it is the argument
  \<open>shuffle\<close> of the model (the identity when every comparison says "in order", the
  reversal in V8 when every comparison says "out of order"). The template text before and
  after the block is not modelled: the arguments \<open>before\<close> and \<open>after\<close> stand for it.
\<close>

type_synonym faq = "string \<times> string"

definition keyboardInfoOf :: "(string \<times> 'c variantBucket) list \<Rightarrow> string" where
  "keyboardInfoOf vs =
     (if length vs > 0 then
        (let hasEnglish = list_ex (\<lambda>kv. keyboardLayout (snd kv) = ''English'') vs;
             hasFrench = list_ex (\<lambda>kv. keyboardLayout (snd kv) = ''French Canadian'') vs
         in if hasEnglish \<and> hasFrench then ''Available in English and French Canadian keyboards''
            else if hasFrench then ''French Canadian keyboard''
            else ''English keyboard'')
      else ''English keyboard'')"

definition faqPool :: "string \<Rightarrow> faq list" where
  "faqPool keyboardInfo =
     [(''Is this genuine Apple hardware?'',
       ''100% authentic Apple hardware - never refurbished knockoffs or third-party parts.''),
      (''What does Grade A, B, C, D mean?'',
       ''Grade A=like-new (30% off), Grade B=excellent (32% off), Grade C=good (34% off), Grade D=fair (39% off retail).''),
      (''Do I get a warranty?'',
       ''Yes! Every MacBook includes our 90-day warranty plus optional extended coverage available.''),
      (''Can I return if not satisfied?'',
       ''Absolutely! 30-day no-questions-asked return policy for your peace of mind.''),
      (''What's included in the box?'',
       ''Your MacBook, original Apple charger, and all necessary documentation.''),
      (''How long will this last?'',
       ''Refurbished MacBooks last just as long as new ones - these are built to run for years.''),
      (''What's your refurbishment process?'',
       ''Professional 47-point inspection, deep cleaning, testing, and certification by Apple-trained technicians.''),
      (''What keyboard options are available?'',
       ''We offer '' @ keyboardInfo @ '' to suit Canadian users perfectly.'')]"

definition selectedFAQs :: "(faq list \<Rightarrow> faq list) \<Rightarrow> (string \<times> 'c variantBucket) list \<Rightarrow> faq list" where
  "selectedFAQs shuffle vs = take 4 (shuffle (faqPool (keyboardInfoOf vs)))"

definition faqHtml :: "faq \<Rightarrow> string" where
  "faqHtml f =
     [CHR 0x0A] @ ''      <h3>'' @ fst f @ ''</h3>'' @ [CHR 0x0A] @ ''      <p>'' @ snd f
     @ ''</p>'' @ [CHR 0x0A] @ ''    ''"

definition createAdvancedProductDescription ::
  "(faq list \<Rightarrow> faq list)
   \<Rightarrow> ('a productInfo_scheme \<Rightarrow> (string \<times> 'c variantBucket) list \<Rightarrow> string)
   \<Rightarrow> ('a productInfo_scheme \<Rightarrow> (string \<times> 'c variantBucket) list \<Rightarrow> string)
   \<Rightarrow> 'a productInfo_scheme \<Rightarrow> (string \<times> 'c variantBucket) list \<Rightarrow> string" where
  "createAdvancedProductDescription shuffle before after p vs =
     before p vs @ concat (map faqHtml (selectedFAQs shuffle vs)) @ after p vs"

text \<open>A random order that keeps the first four entries of the pool and reverses the rest.\<close>

definition reverseTail :: "faq list \<Rightarrow> faq list" where
  "reverseTail xs = take 4 xs @ rev (drop 4 xs)"

text \<open>An empty text in the place of the template around the block.\<close>

definition noText :: "productInfo \<Rightarrow> (string \<times> 'c variantBucket) list \<Rightarrow> string" where
  "noText p vs = []"

section \<open>Reference definitions for the properties\<close>

text \<open>
  What commutativity of the grouping compares of a group: its \<open>totalUnits\<close>, its stock
  items as a multiset, and for every variant key the quantity and the stock items of the
  bucket.
\<close>

definition bucketSummary :: "colorValue variantBucket \<Rightarrow> nat \<times> colorValue stockItem multiset" where
  "bucketSummary b = (quantity b, mset (stockItems_b b))"

definition groupSummary ::
  "colorValue productGroup \<Rightarrow> nat option \<times> colorValue stockItem multiset \<times> (string \<Rightarrow> (nat \<times> colorValue stockItem multiset) option)" where
  "groupSummary g =
     (totalUnits g, mset (stockItems g), \<lambda>vk. map_option bucketSummary (map_of (variants g) vk))"

text \<open>
  The grouping key of a row that is classified and not dropped for its key, and the units
  that a list of rows contributes to the group of a key and to one of its buckets, in the
  order of the rows.
\<close>

definition groupKeyOf :: "(row \<Rightarrow> productInfo option) \<Rightarrow> row \<Rightarrow> string option" where
  "groupKeyOf an r =
     (case an r of
        None \<Rightarrow> None
      | Some info \<Rightarrow>
          if createAdvancedGroupingKey info \<in> set inheritedNames then None
          else Some (createAdvancedGroupingKey info))"

definition unitsOf :: "(row \<Rightarrow> productInfo option) \<Rightarrow> string \<Rightarrow> row list \<Rightarrow> colorValue stockItem list" where
  "unitsOf an k rows = map rowStockItem (filter (\<lambda>r. groupKeyOf an r = Some k) rows)"

definition bucketUnits ::
  "(row \<Rightarrow> productInfo option) \<Rightarrow> string \<Rightarrow> string \<Rightarrow> row list \<Rightarrow> colorValue stockItem list" where
  "bucketUnits an k vk rows =
     map rowStockItem (filter (\<lambda>r. groupKeyOf an r = Some k \<and> rowVariantKey r = vk) rows)"

text \<open>
  The rows whose colour is a string, and the invariant of the fold in
  \<open>createProductGroups\<close> over such rows.
\<close>

definition stringColor :: "row \<Rightarrow> bool" where
  "stringColor r =
     (case rowColor r of ColorString s \<Rightarrow> True | ObjectConstructor \<Rightarrow> False
      | ObjectPrototype \<Rightarrow> False)"

definition bucketsOk ::
  "(row \<Rightarrow> productInfo option) \<Rightarrow> string \<Rightarrow> row list \<Rightarrow> (string \<times> colorValue variantBucket) list \<Rightarrow> bool" where
  "bucketsOk an k rows vs =
     (\<forall>vk. (map_of vs vk = None \<longrightarrow> bucketUnits an k vk rows = []) \<and>
           (\<forall>b. map_of vs vk = Some b \<longrightarrow>
              bucketUnits an k vk rows \<noteq> [] \<and> stockItems_b b = bucketUnits an k vk rows
              \<and> quantity b = length (bucketUnits an k vk rows)))"

definition groupsOk ::
  "(row \<Rightarrow> productInfo option) \<Rightarrow> row list \<Rightarrow> (string \<times> colorValue productGroup) list \<Rightarrow> bool" where
  "groupsOk an rows gs =
     (\<forall>k. (map_of gs k = None \<longrightarrow> unitsOf an k rows = []) \<and>
          (\<forall>g. map_of gs k = Some g \<longrightarrow>
             unitsOf an k rows \<noteq> [] \<and> stockItems g = unitsOf an k rows
             \<and> totalUnits g = Some (length (unitsOf an k rows))
             \<and> bucketsOk an k rows (variants g)))"

text \<open>
  The same units as multisets, for a multiset of rows, and the summary of the group of a
  key that they determine.
\<close>

definition unitsIn :: "(row \<Rightarrow> productInfo option) \<Rightarrow> string \<Rightarrow> row multiset \<Rightarrow> colorValue stockItem multiset" where
  "unitsIn an k M = image_mset rowStockItem (filter_mset (\<lambda>r. groupKeyOf an r = Some k) M)"

definition bucketUnitsIn ::
  "(row \<Rightarrow> productInfo option) \<Rightarrow> string \<Rightarrow> string \<Rightarrow> row multiset \<Rightarrow> colorValue stockItem multiset" where
  "bucketUnitsIn an k vk M =
     image_mset rowStockItem
       (filter_mset (\<lambda>r. groupKeyOf an r = Some k \<and> rowVariantKey r = vk) M)"

definition expectedSummary ::
  "(row \<Rightarrow> productInfo option) \<Rightarrow> row multiset \<Rightarrow> string
   \<Rightarrow> (nat option \<times> colorValue stockItem multiset \<times> (string \<Rightarrow> (nat \<times> colorValue stockItem multiset) option)) option" where
  "expectedSummary an M k =
     (if unitsIn an k M = {#} then None
      else Some (Some (size (unitsIn an k M)), unitsIn an k M,
                 \<lambda>vk. if bucketUnitsIn an k vk M = {#} then None
                      else Some (size (bucketUnitsIn an k vk M), bucketUnitsIn an k vk M)))"


text \<open>
  The group after the unit of a row was added to it, \<open>b0\<close> being the bucket of the row
  when its key is new; and conservation in one group.
\<close>

definition addUnit ::
  "colorValue variantBucket \<Rightarrow> row \<Rightarrow> colorValue productGroup \<Rightarrow> colorValue productGroup" where
  "addUnit b0 item g =
     g\<lparr>variants := upsert (rowVariantKey item) b0 (addToVariant (rowStockItem item)) (variants g),
       stockItems := stockItems g @ [rowStockItem item],
       totalUnits := map_option Suc (totalUnits g)\<rparr>"

definition conserved :: "'c productGroup \<Rightarrow> bool" where
  "conserved g =
     (sum_list (map (\<lambda>kv. quantity (snd kv)) (variants g)) = length (stockItems g)
      \<and> totalUnits g = Some (length (stockItems g)))"

text \<open>
  The first end-to-end scenario of the specification: two units of one MacBook Pro
  model, one Space Gray of grade A and one Silver of grade B. \<open>scenarioSpec\<close> is the
  spec that \<^verbatim>\<open>analyzeProductAdvanced\<close> gives to each of the rows (the size from the
  processor text, the year estimated from the chip). \<open>scenarioAnalyze\<close> stands for the
  classifier on these rows: it gives that spec to a row whose model text contains
  \<^verbatim>\<open>macbook pro\<close> and rejects every other row.
\<close>

definition scenarioSpec :: productInfo where
  "scenarioSpec =
     \<lparr>productType = ''MacBook Pro'', displaySize = [CHR ''1'', CHR ''4'', CHR 0x22],
      processor = ''M2'', storage = ''512GB'', memory = ''16GB'', year = ''2022'',
      modelNumber = []\<rparr>"

definition scenarioAnalyze :: "row \<Rightarrow> productInfo option" where
  "scenarioAnalyze item =
     (if str_includes (toLowerCase (field item ''Model'')) ''macbook pro''
      then Some scenarioSpec else None)"

definition scenarioRows :: "row list" where
  "scenarioRows =
     [[(''Stock'', ''S1''), (''Serial Number'', ''X1''), (''Model'', ''MacBook Pro''),
       (''Processor'', ''M2 14 inch''), (''Storage'', ''512GB''), (''Memory'', ''16GB''),
       (''Color'', ''Space Gray''), (''Condition'', ''A'')],
      [(''Stock'', ''S2''), (''Serial Number'', ''X2''), (''Model'', ''MacBook Pro''),
       (''Processor'', ''M2 14 inch''), (''Storage'', ''512GB''), (''Memory'', ''16GB''),
       (''Color'', ''Silver''), (''Condition'', ''B'')]]"

definition scenarioKey :: string where
  "scenarioKey = ''MacBookPro_14_M2_512GB_16GB_2022''"

text \<open>
  For the concrete evaluations: a comparison of strings by code units in the place of
  \<^verbatim>\<open>localeCompare\<close>, the group that \<open>createProductGroups\<close> builds from rows of the
  scenario's model as it arrives in a sync request, a row without a serial number, and the
  product that the first sync of the scenario leaves in the catalog (one unit of each
  variant).
\<close>

fun codeUnitCompare :: "string \<Rightarrow> string \<Rightarrow> int" where
  "codeUnitCompare [] [] = 0"
| "codeUnitCompare [] (y # ys) = - 1"
| "codeUnitCompare (x # xs) [] = 1"
| "codeUnitCompare (x # xs) (y # ys) =
     (if (of_char x :: nat) < of_char y then - 1
      else if (of_char y :: nat) < of_char x then 1
      else codeUnitCompare xs ys)"

definition groupOf :: "row list \<Rightarrow> string productGroup" where
  "groupOf rows =
     (case map_of (createProductGroups scenarioAnalyze rows) scenarioKey of
        Some g \<Rightarrow> (case requestGroup g of Some r \<Rightarrow> r | None \<Rightarrow> newGroup scenarioSpec)
      | None \<Rightarrow> newGroup scenarioSpec)"

definition unserialisedRow :: row where
  "unserialisedRow =
     [(''Stock'', ''S3''), (''Model'', ''MacBook Pro''), (''Processor'', ''M2 14 inch''),
      (''Storage'', ''512GB''), (''Memory'', ''16GB''),
      (''Color'', ''Space Gray''), (''Condition'', ''A'')]"

text \<open>
  Two rows of the scenario's model whose colour cells are the texts \<^verbatim>\<open>__proto__\<close> and
  \<^verbatim>\<open>[object Object]\<close>, and the total units of the groups in a map.
\<close>

definition protoRow :: row where
  "protoRow =
     [(''Stock'', ''S4''), (''Serial Number'', ''X4''), (''Model'', ''MacBook Pro''),
      (''Processor'', ''M2 14 inch''), (''Storage'', ''512GB''), (''Memory'', ''16GB''),
      (''Color'', ''__proto__''), (''Condition'', ''A'')]"

definition objectTextRow :: row where
  "objectTextRow =
     [(''Stock'', ''S5''), (''Serial Number'', ''X5''), (''Model'', ''MacBook Pro''),
      (''Processor'', ''M2 14 inch''), (''Storage'', ''512GB''), (''Memory'', ''16GB''),
      (''Color'', ''[object Object]''), (''Condition'', ''A'')]"

definition unitsPerGroup :: "(string \<times> 'c productGroup) list \<Rightarrow> (string \<times> nat option) list" where
  "unitsPerGroup gs = map (\<lambda>kv. (fst kv, totalUnits (snd kv))) gs"

text \<open>
  The group of the row without a serial number as a sync request holds it when the
  request leaves out \<^verbatim>\<open>basePrice\<close>.
\<close>

definition unpricedGroup :: "string productGroup" where
  "unpricedGroup = (groupOf [unserialisedRow])\<lparr>basePrice := None\<rparr>"

definition scenarioExisting :: "existingProduct list" where
  "scenarioExisting =
     [\<lparr>id_p = 7, title_p = toUpperCase (createAdvancedSEOTitle scenarioSpec),
       variants_p =
         [\<lparr>option1 = ''Silver'', option2 = ''Grade B'', option3 = ''English'',
            id_v = 71, inventory_quantity_v = Some 1\<rparr>,
          \<lparr>option1 = ''Space Gray'', option2 = ''Grade A'', option3 = ''English'',
            id_v = 72, inventory_quantity_v = Some 5\<rparr>]\<rparr>]"

text \<open>
  For \<open>createAdvancedVariants\<close>: the stock items with a stock id and a serial number that
  have a given aggregation key, the key of a variant of the payload (its second option
  without the prefix \<^verbatim>\<open>Grade\<close> and the blank), and the invariant of the aggregation.
\<close>

definition validWithKey :: "string \<Rightarrow> string stockItem list \<Rightarrow> string stockItem list" where
  "validWithKey k items = filter (\<lambda>si. validItem si \<and> itemVariantKey si = k) items"

definition payloadKey :: "'a variantOptions_scheme \<Rightarrow> string" where
  "payloadKey v = option1 v @ ''|'' @ drop 6 (option2 v) @ ''|'' @ option3 v"

definition axesFrom :: "aggregatedVariant \<Rightarrow> string stockItem list \<Rightarrow> bool" where
  "axesFrom e items =
     (\<exists>si\<in>set items. color e = color si \<and> condition e = condition si
                       \<and> keyboardLayout e = keyboardLayout si)"

definition aggregatedOk :: "string stockItem list \<Rightarrow> (string \<times> aggregatedVariant) list \<Rightarrow> bool" where
  "aggregatedOk items vm =
     (distinct (map fst vm) \<and>
      (\<forall>k. (map_of vm k = None \<longrightarrow> validWithKey k items = []) \<and>
           (\<forall>e. map_of vm k = Some e \<longrightarrow>
              validWithKey k items \<noteq> [] \<and>
              inventory_quantity_m e = length (validWithKey k items) \<and>
              itemVariantKey e = k \<and> axesFrom e (validWithKey k items))))"

text \<open>A catalog that answers every call with success, and the rows of the scenario's
  first unit followed by a unit of the same variant that has no serial number.\<close>

definition alwaysOk :: "nat \<Rightarrow> bool" where
  "alwaysOk n = True"

definition mixedRows :: "row list" where
  "mixedRows = [hd scenarioRows, unserialisedRow]"

text \<open>
  For the reconciler: the call that \<open>processVariants\<close> makes for a new variant, the
  variant of the payload of the group of \<open>mixedRows\<close>, the remote variant with the same
  options, and a catalog that refuses every call.
\<close>

definition variantCallOk ::
  "existingProduct \<Rightarrow> shopifyVariant list \<Rightarrow> apiCall \<Rightarrow> bool" where
  "variantCallOk ep newVariants c =
     (\<exists>newV\<in>set newVariants.
        (case find (sameOptions newV) (variants_p ep) of
           Some ev \<Rightarrow> c = PutVariant (id_v ev)
                           (currentInventory ev + int (inventory_quantity newV))
                           (price newV) (compare_at_price newV) (sku newV)
         | None \<Rightarrow> c = PostVariant (id_p ep) newV))"



definition neverOk :: "nat \<Rightarrow> bool" where
  "neverOk n = False"

fun isPostProduct :: "apiCall \<Rightarrow> bool" where
  "isPostProduct (PostProduct t h vs) = True"
| "isPostProduct c = False"

text \<open>A handle in which no hyphen follows a hyphen.\<close>

fun noDoubleHyphen :: "string \<Rightarrow> bool" where
  "noDoubleHyphen (a # b # cs) = (\<not> (a = CHR ''-'' \<and> b = CHR ''-'') \<and> noDoubleHyphen (b # cs))"
| "noDoubleHyphen cs = True"

text \<open>
  The handle before \<^verbatim>\<open>.substring(0, 255)\<close>, and a spec whose processor text has 227
  letters: the spec that \<^verbatim>\<open>analyzeProductAdvanced\<close> gives for a row with the model
  \<^verbatim>\<open>MacBook Pro\<close> and that processor text.
\<close>

definition untruncatedHandle :: "string \<Rightarrow> string" where
  "untruncatedHandle s =
     stripTrailingHyphen (stripLeadingHyphen
       (squeeze (\<lambda>c. c = CHR ''-'') CHR ''-'' (filter isHandleChar s)))"

definition longProcessorSpec :: productInfo where
  "longProcessorSpec =
     \<lparr>productType = ''MacBook Pro'', displaySize = [CHR ''1'', CHR ''3'', CHR 0x22],
      processor = replicate 227 CHR ''a'', storage = [], memory = [], year = ''2022'',
      modelNumber = []\<rparr>"

section \<open>Properties of the content generator\<close>

text \<open>
  C8. For every product spec, whatever the lengths of its productType, processor, year,
  storage and memory strings, the generated SEO title has at most 60 characters.
\<close>

theorem createAdvancedSEOTitle_length_le_60:
  "length (createAdvancedSEOTitle p) \<le> 60"
  by (simp add: createAdvancedSEOTitle_def Let_def)

text \<open>
  The retail price ends in 29, 49, 79 or 99: every table entry does, and every adjustment
  is a multiple of 100.
\<close>

lemma retailBase_cases: "retailBase t = 999 \<or> retailBase t \<in> snd ` set retailPrices"
proof (cases "map_of retailPrices t")
  case None
  then show ?thesis by (simp add: retailBase_def)
next
  case (Some v)
  then have "(t, v) \<in> set retailPrices" by (rule map_of_SomeD)
  then have "v \<in> snd ` set retailPrices" by force
  with Some show ?thesis by (simp add: retailBase_def)
qed

lemma retailPrices_values:
  "snd ` set retailPrices \<subseteq> {2799, 1599, 1999, 1399, 899, 579, 699, 1129, 999, 849, 1799, 229, 129}"
  by (simp add: retailPrices_def)

lemma retailBase_mod_100: "retailBase t mod 100 \<in> {29, 49, 79, 99}"
proof -
  have "retailBase t \<in> {2799, 1599, 1999, 1399, 899, 579, 699, 1129, 999, 849, 1799, 229, 129}"
    using retailBase_cases [of t] retailPrices_values by blast
  then show ?thesis by (elim insertE emptyE) simp_all
qed

lemma adjust_dvd_100:
  "100 dvd storageAdjust s" "100 dvd memoryAdjust m"
  "100 dvd processorAdjust pr" "100 dvd displayAdjust d"
  by (simp_all add: storageAdjust_def memoryAdjust_def processorAdjust_def displayAdjust_def Let_def)

lemma calculateRetailPrice_mod_100: "calculateRetailPrice p mod 100 \<in> {29, 49, 79, 99}"
proof -
  have "100 dvd storageAdjust (storage p) + memoryAdjust (memory p)
          + processorAdjust (processor p) + displayAdjust (displaySize p)"
    by (intro dvd_add adjust_dvd_100)
  then obtain k where k: "storageAdjust (storage p) + memoryAdjust (memory p)
          + processorAdjust (processor p) + displayAdjust (displaySize p) = 100 * k"
    by (auto simp: dvd_def)
  have "calculateRetailPrice p = retailBase (productType p) + 100 * k"
    unfolding calculateRetailPrice_def using k by linarith
  then have "calculateRetailPrice p mod 100 = retailBase (productType p) mod 100"
    by simp
  then show ?thesis using retailBase_mod_100 [of "productType p"] by simp
qed

text \<open>
  The display size is compared as a double: a size text just below 16 whose nearest double
  is 16 adds 300, and one whose nearest double is below 16 adds 200.
\<close>

lemma displayAdjust_compares_doubles:
  "displayAdjust (''15.99999999999999999999'' @ [CHR 0x22]) = 300 \<and>
   displayAdjust (''15.9999'' @ [CHR 0x22]) = 200 \<and>
   parseFloat ''0.1'' = Fin (3602879701896397 / 36028797018963968)"
  by code_simp

text \<open>
  The source multiplies in double precision. The exact product of a retail price and a
  multiplier lies at least 0.19 above and 0.11 below the next half, so the rounding gives
  the same integer for every value within 0.1 of the exact product; the error of one
  double multiplication of numbers of this size is below \<open>10^-11\<close>. The exact
  product therefore stands for the double one in \<open>calculateVariantPrice\<close>.
\<close>

lemma mathRound_stable:
  fixes a :: int and d :: rat
  assumes t: "10 \<le> (a + 50) mod 100" "(a + 50) mod 100 \<le> 89" and d: "\<bar>d\<bar> \<le> 1 / 10"
  shows "mathRound (of_int a / 100 + d) = (a + 50) div 100"
proof -
  define n where "n = (a + 50) div 100"
  define r where "r = (a + 50) mod 100"
  have a: "a = 100 * n + r - 50" by (simp add: n_def r_def)
  have x: "of_int a / 100 + d + 1 / 2 = of_int n + (of_int r / 100 + d)"
    by (simp add: a field_simps)
  have r1: "(10::rat) \<le> of_int r" "of_int r \<le> (89::rat)"
    using t unfolding r_def by linarith+
  have "0 \<le> of_int r / 100 + d" "of_int r / 100 + d < 1"
    using r1 d by (simp_all add: abs_le_iff field_simps)
  then have "\<lfloor>of_int n + (of_int r / 100 + d)\<rfloor> = n"
    by (simp add: floor_unique)
  then show ?thesis by (simp add: mathRound_def x n_def)
qed

lemma residue_in_range:
  fixes b m :: int
  assumes "b \<in> {29, 49, 79, 99}" "m \<in> {70, 68, 66, 61}"
  shows "10 \<le> (b * m + 50) mod 100 \<and> (b * m + 50) mod 100 \<le> 89"
  using assms by (elim insertE emptyE) simp_all

lemma variant_price_rounding_stable:
  fixes d :: rat
  assumes m: "m \<in> {70, 68, 66, 61 :: int}" and d: "\<bar>d\<bar> \<le> 1 / 10"
  shows "mathRound (of_int (calculateRetailPrice p) * (of_int m / 100) + d)
         = (calculateRetailPrice p * m + 50) div 100"
proof -
  define r where "r = calculateRetailPrice p"
  have b: "r mod 100 \<in> {29, 49, 79, 99}" unfolding r_def by (rule calculateRetailPrice_mod_100)
  have "(r * m + 50) mod 100 = ((r mod 100) * m + 50) mod 100"
    by (metis mod_add_left_eq mod_mult_left_eq)
  then have "10 \<le> (r * m + 50) mod 100 \<and> (r * m + 50) mod 100 \<le> 89"
    using residue_in_range [OF b m] by simp
  then have "mathRound (of_int (r * m) / 100 + d) = (r * m + 50) div 100"
    using mathRound_stable [of "r * m" d] d by simp
  then show ?thesis by (simp add: r_def)
qed

lemma conditionMultiplier_table:
  "conditionMultiplier ''A'' = 70 / 100" "conditionMultiplier ''B'' = 68 / 100"
  "conditionMultiplier ''C'' = 66 / 100" "conditionMultiplier ''D'' = 61 / 100"
  by (simp_all add: conditionMultiplier_def conditionMultipliers_def)

text \<open>
  C6. For every product spec and each of the grades A, B, C and D, the variant price is
  the retail price of the spec times the grade's multiplier (0.70, 0.68, 0.66, 0.61),
  rounded to the nearest integer; the compare-at price is the retail price of the spec
  for every grade.
\<close>

theorem variant_price_rounds_retail_times_multiplier:
  "calculateVariantPrice p ''A'' = mathRound (of_int (calculateRetailPrice p) * (70 / 100)) \<and>
   calculateVariantPrice p ''B'' = mathRound (of_int (calculateRetailPrice p) * (68 / 100)) \<and>
   calculateVariantPrice p ''C'' = mathRound (of_int (calculateRetailPrice p) * (66 / 100)) \<and>
   calculateVariantPrice p ''D'' = mathRound (of_int (calculateRetailPrice p) * (61 / 100)) \<and>
   calculateComparePrice p g = calculateRetailPrice p"
  unfolding calculateVariantPrice_def calculateComparePrice_def Let_def conditionMultiplier_table
  by simp

text \<open>
  The handle. What \<open>createSEOOptimizedHandle\<close> guarantees for every input: only small
  letters, digits and hyphens, at most 255 of them, no hyphen after a hyphen, no hyphen
  in front; and no hyphen at the end when the text before the truncation has at most 255
  characters.
\<close>

lemma finishHandle_untruncated: "finishHandle s = take 255 (untruncatedHandle s)"
  by (simp add: finishHandle_def untruncatedHandle_def)

lemma noDoubleHyphen_Cons:
  "noDoubleHyphen (a # cs) = ((a = CHR ''-'' \<longrightarrow> cs = [] \<or> hd cs \<noteq> CHR ''-'') \<and> noDoubleHyphen cs)"
  by (cases cs) auto

lemma noDoubleHyphen_take: "noDoubleHyphen xs \<Longrightarrow> noDoubleHyphen (take n xs)"
proof (induction xs arbitrary: n)
  case Nil
  then show ?case by simp
next
  case (Cons a xs)
  show ?case
  proof (cases n)
    case 0
    then show ?thesis by simp
  next
    case (Suc k)
    have "take k xs = [] \<or> hd (take k xs) = hd xs"
      by (cases xs; cases k) auto
    with Cons Suc show ?thesis
      by (auto simp: noDoubleHyphen_Cons)
  qed
qed

lemma noDoubleHyphen_butlast: "noDoubleHyphen xs \<Longrightarrow> noDoubleHyphen (butlast xs)"
  by (simp add: butlast_conv_take noDoubleHyphen_take)

lemma noDoubleHyphen_last_butlast:
  "noDoubleHyphen xs \<Longrightarrow> xs \<noteq> [] \<Longrightarrow> last xs = CHR ''-'' \<Longrightarrow>
   butlast xs = [] \<or> last (butlast xs) \<noteq> CHR ''-''"
proof (induction xs rule: noDoubleHyphen.induct)
  case (1 a b cs)
  then show ?case by (cases cs) (auto split: if_splits)
qed auto

lemma squeezeFrom_hyphen:
  "noDoubleHyphen (squeezeFrom b (\<lambda>c. c = CHR ''-'') CHR ''-'' s) \<and>
   (b \<longrightarrow> squeezeFrom b (\<lambda>c. c = CHR ''-'') CHR ''-'' s = [] \<or>
          hd (squeezeFrom b (\<lambda>c. c = CHR ''-'') CHR ''-'' s) \<noteq> CHR ''-'')"
  by (induction s arbitrary: b) (auto simp: noDoubleHyphen_Cons)

lemma set_squeezeFrom: "set (squeezeFrom b P r s) \<subseteq> insert r (set s)"
  by (induction s arbitrary: b) auto

lemma set_stripLeadingHyphen: "set (stripLeadingHyphen s) \<subseteq> set s"
  by (auto simp: stripLeadingHyphen_def split: list.splits)

lemma set_stripTrailingHyphen: "set (stripTrailingHyphen s) \<subseteq> set s"
  by (auto simp: stripTrailingHyphen_def dest: in_set_butlastD)

lemma untruncatedHandle_charset: "set (untruncatedHandle s) \<subseteq> Collect isHandleChar"
proof -
  have "set (squeeze (\<lambda>c. c = CHR ''-'') CHR ''-'' (filter isHandleChar s)) \<subseteq> Collect isHandleChar"
    using set_squeezeFrom [of False "\<lambda>c. c = CHR ''-''" "CHR ''-''" "filter isHandleChar s"]
    by (auto simp: squeeze_def isHandleChar_def)
  then show ?thesis
    unfolding untruncatedHandle_def
    using set_stripLeadingHyphen set_stripTrailingHyphen by blast
qed

lemma untruncatedHandle_shape:
  "noDoubleHyphen (untruncatedHandle s) \<and>
   (untruncatedHandle s \<noteq> [] \<longrightarrow>
      hd (untruncatedHandle s) \<noteq> CHR ''-'' \<and> last (untruncatedHandle s) \<noteq> CHR ''-'')"
proof -
  define t where "t = squeeze (\<lambda>c. c = CHR ''-'') CHR ''-'' (filter isHandleChar s)"
  define u where "u = stripLeadingHyphen t"
  have t: "noDoubleHyphen t"
    unfolding t_def squeeze_def using squeezeFrom_hyphen by blast
  have u: "noDoubleHyphen u \<and> (u = [] \<or> hd u \<noteq> CHR ''-'')"
    using t unfolding u_def stripLeadingHyphen_def
    by (cases t) (auto simp: noDoubleHyphen_Cons)
  have v: "untruncatedHandle s = stripTrailingHyphen u"
    by (simp add: untruncatedHandle_def u_def t_def)
  show ?thesis
  proof (cases "u \<noteq> [] \<and> last u = CHR ''-''")
    case True
    then have "untruncatedHandle s = butlast u" by (simp add: v stripTrailingHyphen_def)
    moreover have "butlast u = [] \<or> last (butlast u) \<noteq> CHR ''-''"
      using noDoubleHyphen_last_butlast u True by blast
    moreover have "butlast u \<noteq> [] \<Longrightarrow> hd (butlast u) = hd u"
      by (cases u) (auto split: if_splits)
    ultimately show ?thesis using u noDoubleHyphen_butlast by auto
  next
    case False
    then have "untruncatedHandle s = u" by (auto simp: v stripTrailingHyphen_def)
    with u False show ?thesis by auto
  qed
qed

lemma finishHandle_kept_properties:
  "set (finishHandle s) \<subseteq> Collect isHandleChar"
  "length (finishHandle s) \<le> 255"
  "noDoubleHyphen (finishHandle s)"
  "finishHandle s \<noteq> [] \<Longrightarrow> hd (finishHandle s) \<noteq> CHR ''-''"
  "length (untruncatedHandle s) \<le> 255 \<Longrightarrow> finishHandle s \<noteq> [] \<Longrightarrow>
     last (finishHandle s) \<noteq> CHR ''-''"
proof -
  show "set (finishHandle s) \<subseteq> Collect isHandleChar"
    unfolding finishHandle_untruncated
    using untruncatedHandle_charset [of s] set_take_subset [of 255 "untruncatedHandle s"]
    by blast
  show "length (finishHandle s) \<le> 255" by (simp add: finishHandle_untruncated)
  show "noDoubleHyphen (finishHandle s)"
    unfolding finishHandle_untruncated
    using untruncatedHandle_shape noDoubleHyphen_take by blast
  show "finishHandle s \<noteq> [] \<Longrightarrow> hd (finishHandle s) \<noteq> CHR ''-''"
    unfolding finishHandle_untruncated
    using untruncatedHandle_shape [of s] by (cases "untruncatedHandle s") auto
  show "length (untruncatedHandle s) \<le> 255 \<Longrightarrow> finishHandle s \<noteq> [] \<Longrightarrow>
     last (finishHandle s) \<noteq> CHR ''-''"
    unfolding finishHandle_untruncated
    using untruncatedHandle_shape [of s] by simp
qed


text \<open>
  C9. The handle of every spec has only characters of \<^verbatim>\<open>[a-z0-9-]\<close>, no hyphen at either
  end, no two hyphens in a row and at most 255 characters. The source removes the hyphens
  at the ends before it truncates, so a truncation that falls just after a separator
  leaves a hyphen at the end: the handle of \<open>longProcessorSpec\<close> has 255 characters and
  the last one is a hyphen.
\<close>

theorem handle_of_long_spec_ends_with_hyphen:
  "length (createSEOOptimizedHandle longProcessorSpec) = 255 \<and>
   last (createSEOOptimizedHandle longProcessorSpec) = CHR ''-''"
  by code_simp

section \<open>Properties of grouping\<close>

lemma upsert_Nil: "upsert k init f [] = [(k, f init)]"
  by (simp add: upsert_def)

lemma upsert_Cons:
  "upsert k init f ((k', v) # obj) =
     (if k' = k then (k, f v) # obj else (k', v) # upsert k init f obj)"
  by (simp add: upsert_def)

lemma sum_upsert:
  assumes "q init = 0" and "\<And>v. q (f v) = q v + (1::nat)"
  shows "sum_list (map (\<lambda>kv. q (snd kv)) (upsert k init f obj))
         = sum_list (map (\<lambda>kv. q (snd kv)) obj) + 1"
proof (induction obj)
  case Nil
  show ?case by (simp add: upsert_Nil assms)
next
  case (Cons a obj)
  obtain k' v where a: "a = (k', v)" by (cases a)
  show ?case using Cons by (simp add: a upsert_Cons assms)
qed

lemma in_updateD:
  "(k', v') \<in> set (AList.update k v obj) \<Longrightarrow> (k', v') \<in> set obj \<or> (k' = k \<and> v' = v)"
  by (induction obj) (auto split: if_splits)

lemma in_ensureD:
  "(k', v') \<in> set (ensure k init obj) \<Longrightarrow> (k', v') \<in> set obj \<or> (k' = k \<and> v' = init)"
  by (auto simp: ensure_def split: option.splits)

lemma update_ensure: "AList.update k v (ensure k init obj) = AList.update k v obj"
  by (induction obj) (auto simp: ensure_def split: option.splits)

text \<open>
  What \<open>addToGroup\<close> returns: an error only for a colour that is not a string whose
  bucket is new, and otherwise the group with the unit added, to the bucket that exists or
  to a new bucket that is empty.
\<close>

lemma newVariant_Inr:
  "newVariant info col cond kb = Inr b \<Longrightarrow> quantity b = 0 \<and> stockItems_b b = []"
  by (auto simp: newVariant_def split: sum.splits)

lemma newVariant_string:
  "\<exists>b. newVariant info (ColorString s) cond kb = Inr b"
  by (simp add: newVariant_def createAdvancedSKU_def)

lemma addToGroup_Inr:
  assumes "addToGroup info item g = Inr g'"
  shows "\<exists>b0. quantity b0 = 0 \<and> stockItems_b b0 = [] \<and> g' = addUnit b0 item g"
proof (cases "map_of (variants g) (rowVariantKey item)")
  case None
  with assms obtain b where
    b: "newVariant info (rowColor item) (rowCondition item) (determineKeyboardLayout item) = Inr b"
    by (auto simp: addToGroup_def Let_def split: sum.splits)
  then have "g' = addUnit b item g"
    using assms None by (simp add: addToGroup_def Let_def addUnit_def upsert_def)
  with newVariant_Inr [OF b] show ?thesis by blast
next
  case (Some b)
  define b0 where "b0 = b\<lparr>quantity := 0, stockItems_b := []\<rparr>"
  have "g' = addUnit b0 item g"
    using assms Some by (auto simp: addToGroup_def Let_def addUnit_def upsert_def)
  moreover have "quantity b0 = 0 \<and> stockItems_b b0 = []" by (simp add: b0_def)
  ultimately show ?thesis by blast
qed

lemma addToGroup_stringColor:
  assumes "stringColor item"
  shows "\<exists>b0. quantity b0 = 0 \<and> stockItems_b b0 = [] \<and> addToGroup info item g = Inr (addUnit b0 item g)"
proof -
  from assms obtain s where "rowColor item = ColorString s"
    by (auto simp: stringColor_def split: colorValue.splits)
  then obtain b where
    b: "newVariant info (rowColor item) (rowCondition item) (determineKeyboardLayout item) = Inr b"
    using newVariant_string by metis
  have "addToGroup info item g = Inr (addUnit b item g)"
    by (cases "map_of (variants g) (rowVariantKey item)")
       (simp_all add: addToGroup_def Let_def addUnit_def upsert_def b)
  with newVariant_Inr [OF b] show ?thesis by blast
qed

lemma conserved_newGroup: "conserved (newGroup info)"
  by (simp add: conserved_def newGroup_def)

lemma conserved_addUnit:
  "conserved g \<Longrightarrow> quantity b0 = 0 \<Longrightarrow> conserved (addUnit b0 item g)"
  unfolding conserved_def addUnit_def
  by (simp add: sum_upsert [where q = quantity] addToVariant_def)

lemma conserved_processItem:
  assumes inv: "\<And>k g. (k, g) \<in> set gs \<Longrightarrow> conserved g"
    and mem: "(k, g) \<in> set (processItem an gs item)"
  shows "conserved g"
proof (cases "an item")
  case None
  with assms show ?thesis by (simp add: processItem_def)
next
  case (Some info)
  define k0 where "k0 = createAdvancedGroupingKey info"
  define g0 where "g0 = (case map_of gs k0 of None \<Rightarrow> newGroup info | Some g \<Rightarrow> g)"
  have g0: "conserved g0"
  proof (cases "map_of gs k0")
    case None
    then show ?thesis by (simp add: g0_def conserved_newGroup)
  next
    case (Some g1)
    then have "(k0, g1) \<in> set gs" by (rule map_of_SomeD)
    with inv Some show ?thesis by (simp add: g0_def)
  qed
  have ens: "conserved g1" if "(k1, g1) \<in> set (ensure k0 (newGroup info) gs)" for k1 g1
    using in_ensureD [OF that] inv conserved_newGroup by blast
  show ?thesis
  proof (cases "k0 \<in> set inheritedNames")
    case True
    then have "processItem an gs item = gs"
      by (simp add: processItem_def Some Let_def k0_def)
    with mem inv show ?thesis by simp
  next
    case False
    show ?thesis
    proof (cases "addToGroup info item g0")
      case (Inl e)
      then have "processItem an gs item = ensure k0 (newGroup info) gs"
        using False by (simp add: processItem_def Some Let_def k0_def g0_def)
      with mem ens show ?thesis by simp
    next
      case (Inr g')
      from addToGroup_Inr [OF Inr] g0 have g': "conserved g'"
        using conserved_addUnit by blast
      have "processItem an gs item = AList.update k0 g' (ensure k0 (newGroup info) gs)"
        using Inr False by (simp add: processItem_def Some Let_def k0_def g0_def)
      with mem have "(k, g) \<in> set (AList.update k0 g' (ensure k0 (newGroup info) gs))" by simp
      from in_updateD [OF this] ens g' show ?thesis by blast
    qed
  qed
qed

lemma conserved_foldl:
  "(\<And>k g. (k, g) \<in> set gs \<Longrightarrow> conserved g) \<Longrightarrow>
   (k, g) \<in> set (foldl (processItem an) gs rows) \<Longrightarrow> conserved g"
proof (induction rows arbitrary: gs)
  case Nil
  then show ?case by simp
next
  case (Cons r rows)
  show ?case
  proof (rule Cons.IH)
    show "\<And>k g. (k, g) \<in> set (processItem an gs r) \<Longrightarrow> conserved g"
      using Cons.prems(1) conserved_processItem by blast
    show "(k, g) \<in> set (foldl (processItem an) (processItem an gs r) rows)"
      using Cons.prems(2) by simp
  qed
qed

text \<open>The concrete facts about the maps of the evaluations, evaluated once.\<close>

lemma grouping_facts:
  "unitsPerGroup (createProductGroups scenarioAnalyze scenarioRows) = [(scenarioKey, Some 2)] \<and>
   unitsPerGroup (createProductGroups scenarioAnalyze [protoRow]) = [(scenarioKey, Some 0)] \<and>
   unitsPerGroup (createProductGroups scenarioAnalyze [protoRow, objectTextRow])
     = [(scenarioKey, Some 1)] \<and>
   unitsPerGroup (createProductGroups scenarioAnalyze [objectTextRow, protoRow])
     = [(scenarioKey, Some 2)] \<and>
   (\<forall>r\<in>set scenarioRows. stringColor r)"
  by code_simp

text \<open>
  C1. For every product group in the map that \<open>createProductGroups\<close> returns, for any
  rows and any classifier, the quantities of its variants add up to the number of its
  stock items, and \<open>totalUnits\<close> is that number.
\<close>

theorem createProductGroups_conservation:
  assumes "(k, g) \<in> set (createProductGroups analyzeProductAdvanced appleProducts)"
  shows "sum_list (map (\<lambda>kv. quantity (snd kv)) (variants g)) = length (stockItems g)
         \<and> totalUnits g = Some (length (stockItems g))"
proof -
  have "conserved g"
    using assms unfolding createProductGroups_def
    by (rule conserved_foldl [rotated]) simp
  then show ?thesis by (simp add: conserved_def)
qed

theorem createProductGroups_conservation_witness:
  "createProductGroups scenarioAnalyze scenarioRows \<noteq> [] \<and>
   sum_list (map (\<lambda>kv. quantity (snd kv))
      (variants (snd (hd (createProductGroups scenarioAnalyze scenarioRows)))))
     = length (stockItems (snd (hd (createProductGroups scenarioAnalyze scenarioRows)))) \<and>
   totalUnits (snd (hd (createProductGroups scenarioAnalyze scenarioRows)))
     = Some (length (stockItems (snd (hd (createProductGroups scenarioAnalyze scenarioRows))))) \<and>
   createProductGroups scenarioAnalyze [protoRow] \<noteq> [] \<and>
   sum_list (map (\<lambda>kv. quantity (snd kv))
      (variants (snd (hd (createProductGroups scenarioAnalyze [protoRow])))))
     = length (stockItems (snd (hd (createProductGroups scenarioAnalyze [protoRow])))) \<and>
   totalUnits (snd (hd (createProductGroups scenarioAnalyze [protoRow])))
     = Some (length (stockItems (snd (hd (createProductGroups scenarioAnalyze [protoRow])))))"
proof -
  have ne: "createProductGroups scenarioAnalyze scenarioRows \<noteq> []"
    "createProductGroups scenarioAnalyze [protoRow] \<noteq> []"
    using grouping_facts by (auto simp: unitsPerGroup_def)
  have "(fst (hd (createProductGroups scenarioAnalyze scenarioRows)),
         snd (hd (createProductGroups scenarioAnalyze scenarioRows)))
        \<in> set (createProductGroups scenarioAnalyze scenarioRows)"
       "(fst (hd (createProductGroups scenarioAnalyze [protoRow])),
         snd (hd (createProductGroups scenarioAnalyze [protoRow])))
        \<in> set (createProductGroups scenarioAnalyze [protoRow])"
    using ne by simp_all
  from createProductGroups_conservation [OF this(1)] createProductGroups_conservation [OF this(2)] ne
  show ?thesis by simp
qed

text \<open>
  The order of the rows. When the colour of every row is a string, the group of a key
  holds the units of the rows of that key and each bucket those of its variant key, so the
  map depends on the rows as a multiset only.
\<close>

lemma map_of_upsert:
  "map_of (upsert k init f obj) k' =
     (if k' = k then Some (f (case map_of obj k of None \<Rightarrow> init | Some v \<Rightarrow> v))
      else map_of obj k')"
  by (simp add: upsert_def update_conv')

lemma unitsOf_snoc:
  "unitsOf an k (rows @ [r]) =
     unitsOf an k rows @ (if groupKeyOf an r = Some k then [rowStockItem r] else [])"
  by (simp add: unitsOf_def)

lemma bucketUnits_snoc:
  "bucketUnits an k vk (rows @ [r]) =
     bucketUnits an k vk rows
     @ (if groupKeyOf an r = Some k \<and> rowVariantKey r = vk then [rowStockItem r] else [])"
  by (simp add: bucketUnits_def)

lemma bucketUnits_empty: "unitsOf an k rows = [] \<Longrightarrow> bucketUnits an k vk rows = []"
  by (auto simp: unitsOf_def bucketUnits_def filter_empty_conv)

lemma bucketsOk_other:
  "groupKeyOf an r \<noteq> Some k \<Longrightarrow> bucketsOk an k (rows @ [r]) vs = bucketsOk an k rows vs"
  by (simp add: bucketsOk_def bucketUnits_snoc)

lemma bucketsOk_add:
  assumes "bucketsOk an k rows vs" "groupKeyOf an r = Some k"
    and "quantity b0 = 0" "stockItems_b b0 = []"
  shows "bucketsOk an k (rows @ [r])
           (upsert (rowVariantKey r) b0 (addToVariant (rowStockItem r)) vs)"
  using assms unfolding bucketsOk_def
  by (auto simp: map_of_upsert bucketUnits_snoc addToVariant_def split: option.splits)

lemma processItem_stringColor:
  assumes "an r = Some info" "stringColor r"
    and "createAdvancedGroupingKey info \<notin> set inheritedNames"
  shows "\<exists>b0. quantity b0 = 0 \<and> stockItems_b b0 = [] \<and>
           processItem an gs r = upsert (createAdvancedGroupingKey info) (newGroup info) (addUnit b0 r) gs"
proof -
  define g0 where
    "g0 = (case map_of gs (createAdvancedGroupingKey info) of None \<Rightarrow> newGroup info | Some g \<Rightarrow> g)"
  from addToGroup_stringColor [OF assms(2), of info g0] obtain b0 where
    b0: "quantity b0 = 0" "stockItems_b b0 = []" "addToGroup info r g0 = Inr (addUnit b0 r g0)"
    by blast
  have "processItem an gs r = upsert (createAdvancedGroupingKey info) (newGroup info) (addUnit b0 r) gs"
    using b0(3) assms(3)
    by (simp add: processItem_def assms(1) Let_def g0_def update_ensure upsert_def)
  with b0 show ?thesis by blast
qed

lemma groupsOk_Nil: "groupsOk an [] []"
  by (simp add: groupsOk_def unitsOf_def)

lemma groupsOk_step:
  assumes ok: "groupsOk an rows gs" and str: "stringColor r"
  shows "groupsOk an (rows @ [r]) (processItem an gs r)"
proof (cases "groupKeyOf an r")
  case None
  then have "\<And>k. unitsOf an k (rows @ [r]) = unitsOf an k rows"
       "\<And>k vs. bucketsOk an k (rows @ [r]) vs = bucketsOk an k rows vs"
    by (simp_all add: unitsOf_snoc bucketsOk_other)
  moreover have "processItem an gs r = gs"
    using None by (auto simp: groupKeyOf_def processItem_def Let_def split: option.splits if_splits)
  ultimately show ?thesis using ok by (simp add: groupsOk_def)
next
  case (Some k0)
  then obtain info where info: "an r = Some info" and k0: "k0 = createAdvancedGroupingKey info"
    and ninh: "createAdvancedGroupingKey info \<notin> set inheritedNames"
    by (auto simp: groupKeyOf_def split: option.splits if_splits)
  have key: "groupKeyOf an r = Some k0" by (rule Some)
  from processItem_stringColor [of an r info gs, OF info str ninh] obtain b0 where
    b0: "quantity b0 = 0" "stockItems_b b0 = []" and
    pi: "processItem an gs r = upsert k0 (newGroup info) (addUnit b0 r) gs"
    unfolding k0 by blast
  have "(map_of (processItem an gs r) k = None \<longrightarrow> unitsOf an k (rows @ [r]) = []) \<and>
          (\<forall>g. map_of (processItem an gs r) k = Some g \<longrightarrow>
             unitsOf an k (rows @ [r]) \<noteq> [] \<and> stockItems g = unitsOf an k (rows @ [r])
             \<and> totalUnits g = Some (length (unitsOf an k (rows @ [r])))
             \<and> bucketsOk an k (rows @ [r]) (variants g))" for k
  proof (cases "k = k0")
    case False
    then have "groupKeyOf an r \<noteq> Some k" using key by simp
    then show ?thesis
      using ok False by (simp add: groupsOk_def pi map_of_upsert unitsOf_snoc bucketsOk_other)
  next
    case True
    show ?thesis
    proof (cases "map_of gs k0")
      case None
      then have e: "unitsOf an k0 rows = []" using ok by (simp add: groupsOk_def)
      have "bucketsOk an k0 rows []"
        by (simp add: bucketsOk_def bucketUnits_empty [OF e])
      from bucketsOk_add [OF this key b0]
      show ?thesis
        using None e key True
        by (simp add: pi map_of_upsert unitsOf_snoc addUnit_def newGroup_def)
    next
      case (Some g)
      then have g: "unitsOf an k0 rows \<noteq> []" "stockItems g = unitsOf an k0 rows"
        "totalUnits g = Some (length (unitsOf an k0 rows))" "bucketsOk an k0 rows (variants g)"
        using ok by (simp_all add: groupsOk_def)
      from bucketsOk_add [OF g(4) key b0]
      show ?thesis
        using Some g key True
        by (simp add: pi map_of_upsert unitsOf_snoc addUnit_def)
    qed
  qed
  then show ?thesis unfolding groupsOk_def by blast
qed

lemma groupsOk_createProductGroups:
  "\<forall>r\<in>set rows. stringColor r \<Longrightarrow> groupsOk an rows (createProductGroups an rows)"
proof (induction rows rule: rev_induct)
  case Nil
  show ?case by (simp add: createProductGroups_def groupsOk_Nil)
next
  case (snoc r rows)
  then show ?case using groupsOk_step by (simp add: createProductGroups_def)
qed

lemma mset_unitsOf: "mset (unitsOf an k rows) = unitsIn an k (mset rows)"
  by (simp add: unitsOf_def unitsIn_def)

lemma mset_bucketUnits: "mset (bucketUnits an k vk rows) = bucketUnitsIn an k vk (mset rows)"
  by (simp add: bucketUnits_def bucketUnitsIn_def)

lemma bucketsOk_summary:
  assumes "bucketsOk an k rows vs"
  shows "map_option bucketSummary (map_of vs vk) =
         (if bucketUnitsIn an k vk (mset rows) = {#} then None
          else Some (size (bucketUnitsIn an k vk (mset rows)), bucketUnitsIn an k vk (mset rows)))"
proof (cases "map_of vs vk")
  case None
  then have "bucketUnits an k vk rows = []" using assms by (simp add: bucketsOk_def)
  then have "bucketUnitsIn an k vk (mset rows) = {#}"
    by (simp flip: mset_bucketUnits)
  with None show ?thesis by simp
next
  case (Some b)
  then have b: "bucketUnits an k vk rows \<noteq> []" "stockItems_b b = bucketUnits an k vk rows"
    "quantity b = length (bucketUnits an k vk rows)"
    using assms by (simp_all add: bucketsOk_def)
  have "bucketUnitsIn an k vk (mset rows) \<noteq> {#}"
    using b(1) by (simp flip: mset_bucketUnits)
  moreover have "size (bucketUnitsIn an k vk (mset rows)) = length (bucketUnits an k vk rows)"
    by (simp flip: mset_bucketUnits)
  ultimately show ?thesis
    using Some b by (simp add: bucketSummary_def mset_bucketUnits)
qed

lemma createProductGroups_summary:
  assumes str: "\<forall>r\<in>set rows. stringColor r"
  shows "map_option groupSummary (map_of (createProductGroups an rows) k)
         = expectedSummary an (mset rows) k"
proof (cases "map_of (createProductGroups an rows) k")
  case None
  then have "unitsOf an k rows = []"
    using groupsOk_createProductGroups [OF str, of an] by (simp add: groupsOk_def)
  then have "unitsIn an k (mset rows) = {#}" by (simp flip: mset_unitsOf)
  with None show ?thesis by (simp add: expectedSummary_def)
next
  case (Some g)
  then have g: "unitsOf an k rows \<noteq> []" "stockItems g = unitsOf an k rows"
    "totalUnits g = Some (length (unitsOf an k rows))" "bucketsOk an k rows (variants g)"
    using groupsOk_createProductGroups [OF str, of an] by (simp_all add: groupsOk_def)
  have ne: "unitsIn an k (mset rows) \<noteq> {#}" using g(1) by (simp flip: mset_unitsOf)
  have sz: "size (unitsIn an k (mset rows)) = length (unitsOf an k rows)"
    by (simp flip: mset_unitsOf)
  have "groupSummary g =
      (Some (size (unitsIn an k (mset rows))), unitsIn an k (mset rows),
       \<lambda>vk. if bucketUnitsIn an k vk (mset rows) = {#} then None
            else Some (size (bucketUnitsIn an k vk (mset rows)), bucketUnitsIn an k vk (mset rows)))"
    unfolding groupSummary_def
    by (simp add: g(2,3) sz mset_unitsOf bucketsOk_summary [OF g(4)])
  with Some ne show ?thesis by (simp add: expectedSummary_def)
qed

lemma createProductGroups_commutative_for_string_colors:
  assumes "mset rows' = mset rows" and "\<forall>r\<in>set rows. stringColor r"
  shows "map_option groupSummary (map_of (createProductGroups an rows') k)
         = map_option groupSummary (map_of (createProductGroups an rows) k)"
proof -
  have "set rows' = set rows" using assms(1) by (rule mset_eq_setD)
  then have "\<forall>r\<in>set rows'. stringColor r" using assms(2) by simp
  then show ?thesis
    using assms by (simp add: createProductGroups_summary)
qed

lemma unitsPerGroup_single:
  assumes "unitsPerGroup gs = [(k, u)]"
  shows "\<exists>g. map_of gs k = Some g \<and> totalUnits g = u"
proof -
  from assms obtain kv where "gs = [kv]" "fst kv = k" "totalUnits (snd kv) = u"
    by (cases gs) (auto simp: unitsPerGroup_def)
  then show ?thesis by (cases kv) auto
qed

text \<open>
  C7. Grouping is commutative: two lists of classifiable rows that are permutations of
  each other give product-group maps that agree on \<open>totalUnits\<close> per group, on the
  quantity of every bucket and on the stock items per group and per bucket. The source
  does not do this for the rows \<open>protoRow\<close> and \<open>objectTextRow\<close>, which the classifier
  accepts and which have one variant key: the unit of \<open>protoRow\<close> is dropped when it
  comes first, because its bucket is new and the SKU of the bucket cannot be made from its
  colour, and it is counted when it comes second. The group has 1 unit in one order and 2
  in the other.
\<close>

theorem createProductGroups_depends_on_row_order:
  "mset [objectTextRow, protoRow] = mset [protoRow, objectTextRow] \<and>
   scenarioAnalyze protoRow \<noteq> None \<and> scenarioAnalyze objectTextRow \<noteq> None \<and>
   rowVariantKey protoRow = rowVariantKey objectTextRow \<and>
   unitsPerGroup (createProductGroups scenarioAnalyze [protoRow, objectTextRow])
     = [(scenarioKey, Some 1)] \<and>
   unitsPerGroup (createProductGroups scenarioAnalyze [objectTextRow, protoRow])
     = [(scenarioKey, Some 2)] \<and>
   map_option groupSummary
       (map_of (createProductGroups scenarioAnalyze [protoRow, objectTextRow]) scenarioKey)
     \<noteq> map_option groupSummary
         (map_of (createProductGroups scenarioAnalyze [objectTextRow, protoRow]) scenarioKey)"
proof -
  have c: "scenarioAnalyze protoRow \<noteq> None \<and> scenarioAnalyze objectTextRow \<noteq> None \<and>
        rowVariantKey protoRow = rowVariantKey objectTextRow"
    by code_simp
  have u: "unitsPerGroup (createProductGroups scenarioAnalyze [protoRow, objectTextRow])
             = [(scenarioKey, Some 1)]"
          "unitsPerGroup (createProductGroups scenarioAnalyze [objectTextRow, protoRow])
             = [(scenarioKey, Some 2)]"
    using grouping_facts by simp_all
  from unitsPerGroup_single [OF u(1)] unitsPerGroup_single [OF u(2)]
  have "map_option groupSummary
       (map_of (createProductGroups scenarioAnalyze [protoRow, objectTextRow]) scenarioKey)
     \<noteq> map_option groupSummary
         (map_of (createProductGroups scenarioAnalyze [objectTextRow, protoRow]) scenarioKey)"
    by (auto simp: groupSummary_def)
  with c u show ?thesis by (simp add: add_mset_commute)
qed

section \<open>Properties of the variant payload\<close>

lemma mset_insertSorted: "mset (insertSorted cmp x ys) = add_mset x (mset ys)"
  by (induction ys) auto

lemma mset_sortWith: "mset (sortWith cmp xs) = mset xs"
  by (induction xs) (auto simp: sortWith_def mset_insertSorted)

lemma sortWith_Nil_iff: "sortWith cmp xs = [] \<longleftrightarrow> xs = []"
  by (metis mset_sortWith mset_zero_iff)



lemma distinct_upsert: "distinct (map fst obj) \<Longrightarrow> distinct (map fst (upsert k init f obj))"
  by (simp add: upsert_def distinct_update)

lemma validWithKey_snoc:
  "validWithKey k (items @ [si]) =
     validWithKey k items @ (if validItem si \<and> itemVariantKey si = k then [si] else [])"
  by (simp add: validWithKey_def)

lemma aggregatedOk_Nil: "aggregatedOk [] []"
  by (simp add: aggregatedOk_def validWithKey_def)

lemma aggregatedOk_step:
  assumes ok: "aggregatedOk items vm"
  shows "aggregatedOk (items @ [si]) (aggregateItem vm si)"
proof (cases "validItem si")
  case False
  then have "\<And>k. validWithKey k (items @ [si]) = validWithKey k items"
    by (simp add: validWithKey_snoc)
  with ok False show ?thesis by (simp add: aggregatedOk_def aggregateItem_def)
next
  case True
  define k0 where "k0 = itemVariantKey si"
  have ag: "aggregateItem vm si = upsert k0 (newAggregated si) (addToAggregated si) vm"
    using True by (simp add: aggregateItem_def k0_def)
  have key_old: "itemVariantKey (addToAggregated si e) = itemVariantKey e" for e
    by (simp add: itemVariantKey_def addToAggregated_def)
  have axes_old: "axesFrom e xs \<Longrightarrow> axesFrom (addToAggregated si e) (xs @ ys)" for e xs ys
    by (auto simp: axesFrom_def addToAggregated_def)
  have qty: "inventory_quantity_m (addToAggregated si e) = Suc (inventory_quantity_m e)" for e
    by (simp add: addToAggregated_def)
  have d: "distinct (map fst (aggregateItem vm si))"
    using ok by (simp add: ag distinct_upsert aggregatedOk_def)
  have "(map_of (aggregateItem vm si) k = None \<longrightarrow> validWithKey k (items @ [si]) = []) \<and>
           (\<forall>e. map_of (aggregateItem vm si) k = Some e \<longrightarrow>
              validWithKey k (items @ [si]) \<noteq> [] \<and>
              inventory_quantity_m e = length (validWithKey k (items @ [si])) \<and>
              itemVariantKey e = k \<and> axesFrom e (validWithKey k (items @ [si])))" for k
  proof (cases "k = k0")
    case False
    then show ?thesis
      using ok by (simp add: ag map_of_upsert validWithKey_snoc k0_def aggregatedOk_def)
  next
    case k: True
    show ?thesis
    proof (cases "map_of vm k0")
      case None
      then have "validWithKey k0 items = []" using ok by (simp add: aggregatedOk_def)
      with None k True show ?thesis
        by (simp add: ag map_of_upsert validWithKey_snoc k0_def itemVariantKey_def
            addToAggregated_def newAggregated_def axesFrom_def)
    next
      case (Some e)
      then have "validWithKey k0 items \<noteq> []"
        "inventory_quantity_m e = length (validWithKey k0 items)" "itemVariantKey e = k0"
        "axesFrom e (validWithKey k0 items)"
        using ok by (simp_all add: aggregatedOk_def)
      with Some k True show ?thesis
        by (simp add: ag map_of_upsert validWithKey_snoc k0_def key_old qty axes_old)
    qed
  qed
  with d show ?thesis unfolding aggregatedOk_def by blast
qed

lemma aggregatedOk_foldl: "aggregatedOk items (foldl aggregateItem [] items)"
proof (induction items rule: rev_induct)
  case Nil
  show ?case by (simp add: aggregatedOk_Nil)
next
  case (snoc si items)
  then show ?case using aggregatedOk_step by simp
qed

lemma payload_of_entry:
  "payloadKey (shopifyVariantOf g e) = itemVariantKey e"
  "inventory_quantity (shopifyVariantOf g e) = inventory_quantity_m e"
  by (simp_all add: payloadKey_def shopifyVariantOf_def itemVariantKey_def Let_def)

lemma aggregated_payloads:
  fixes g :: "string productGroup"
  assumes ok: "aggregatedOk items vm"
  defines "ps \<equiv> map (\<lambda>kv. shopifyVariantOf g (snd kv)) vm"
  shows "map payloadKey ps = map fst vm"
    and "set (map payloadKey ps) = itemVariantKey ` set (filter validItem items)"
    and "\<And>v. v \<in> set ps \<Longrightarrow> inventory_quantity v = length (validWithKey (payloadKey v) items)"
proof -
  have d: "distinct (map fst vm)" using ok by (simp add: aggregatedOk_def)
  have entry: "itemVariantKey e = k \<and> inventory_quantity_m e = length (validWithKey k items)"
    if "(k, e) \<in> set vm" for k e
  proof -
    from that d have "map_of vm k = Some e" by simp
    then show ?thesis using ok by (simp add: aggregatedOk_def)
  qed
  show keys: "map payloadKey ps = map fst vm"
    unfolding ps_def using entry by (auto simp: payload_of_entry)
  have "k \<in> fst ` set vm \<longleftrightarrow> k \<in> itemVariantKey ` set (filter validItem items)" for k
  proof -
    have "k \<in> fst ` set vm \<longleftrightarrow> map_of vm k \<noteq> None"
      by (simp add: map_of_eq_None_iff)
    also have "\<dots> \<longleftrightarrow> validWithKey k items \<noteq> []"
    proof (cases "map_of vm k")
      case None
      then have "validWithKey k items = []" using ok unfolding aggregatedOk_def by blast
      with None show ?thesis by simp
    next
      case (Some e)
      then have "validWithKey k items \<noteq> []" using ok unfolding aggregatedOk_def by blast
      with Some show ?thesis by simp
    qed
    also have "\<dots> \<longleftrightarrow> k \<in> itemVariantKey ` set (filter validItem items)"
      by (auto simp: validWithKey_def filter_empty_conv)
    finally show ?thesis .
  qed
  then show "set (map payloadKey ps) = itemVariantKey ` set (filter validItem items)"
    unfolding keys by auto
  show "inventory_quantity v = length (validWithKey (payloadKey v) items)" if "v \<in> set ps" for v
    using that entry unfolding ps_def by (auto simp: payload_of_entry)
qed

lemma aggregate_empty_iff:
  "foldl aggregateItem [] items = [] \<longleftrightarrow> filter validItem items = []"
proof -
  have "set (map fst (foldl aggregateItem [] items)) = itemVariantKey ` set (filter validItem items)"
    using aggregated_payloads(1,2) [OF aggregatedOk_foldl] by metis
  then show ?thesis by (metis image_is_empty map_is_Nil_conv set_empty)
qed

lemma createAdvancedVariants_fallback:
  assumes "filter validItem (stockItems g) = []"
  shows "createAdvancedVariants lc g =
           (case basePrice g of None \<Rightarrow> Inl TypeError | Some bp \<Rightarrow> Inr [defaultVariant g bp])"
proof -
  have "foldl aggregateItem [] (stockItems g) = []"
    using assms by (simp add: aggregate_empty_iff)
  then show ?thesis by (simp add: createAdvancedVariants_def sortWith_def)
qed

lemma createAdvancedVariants_regular:
  assumes "filter validItem (stockItems g) \<noteq> []"
  shows "createAdvancedVariants lc g =
           Inr (sortWith (compareVariants lc)
                  (map (\<lambda>kv. shopifyVariantOf g (snd kv)) (foldl aggregateItem [] (stockItems g))))"
    and "sortWith (compareVariants lc)
           (map (\<lambda>kv. shopifyVariantOf g (snd kv)) (foldl aggregateItem [] (stockItems g))) \<noteq> []"
proof -
  have "foldl aggregateItem [] (stockItems g) \<noteq> []"
    using assms by (simp add: aggregate_empty_iff)
  then show ne: "sortWith (compareVariants lc)
      (map (\<lambda>kv. shopifyVariantOf g (snd kv)) (foldl aggregateItem [] (stockItems g))) \<noteq> []"
    by (simp add: sortWith_Nil_iff)
  then show "createAdvancedVariants lc g =
           Inr (sortWith (compareVariants lc)
                  (map (\<lambda>kv. shopifyVariantOf g (snd kv)) (foldl aggregateItem [] (stockItems g))))"
    by (simp add: createAdvancedVariants_def Let_def)
qed




lemma variants_facts:
  "filter validItem (stockItems (groupOf [unserialisedRow])) = [] \<and>
   basePrice (groupOf [unserialisedRow]) = Some 2899 \<and>
   totalUnits (groupOf [unserialisedRow]) = Some 1 \<and>
   filter validItem (stockItems (groupOf scenarioRows)) \<noteq> [] \<and>
   filter validItem (stockItems (groupOf mixedRows)) \<noteq> [] \<and>
   filter validItem (stockItems unpricedGroup) = [] \<and>
   basePrice unpricedGroup = None"
  by code_simp


text \<open>
  C10. \<open>createAdvancedVariants\<close> never returns an empty variant list: when no stock item
  of the group has both a stock id and a serial number, it falls back to the single
  default variant. The source reads the price of the default variant from the group's
  \<open>basePrice\<close> by \<^verbatim>\<open>productGroup.basePrice.toString()\<close>: for \<open>unpricedGroup\<close>, a group
  without \<open>basePrice\<close> whose only stock item has no serial number, it throws a
  \<^verbatim>\<open>TypeError\<close> and returns no variant list.
\<close>

theorem fallback_throws_without_base_price:
  "filter validItem (stockItems unpricedGroup) = [] \<and>
   basePrice unpricedGroup = None \<and>
   createAdvancedVariants codeUnitCompare unpricedGroup = Inl TypeError"
proof -
  have "createAdvancedVariants codeUnitCompare unpricedGroup = Inl TypeError"
    using createAdvancedVariants_fallback [of unpricedGroup codeUnitCompare] variants_facts
    by simp
  then show ?thesis using variants_facts by simp
qed

text \<open>
  C10, as the source has it. \<open>createAdvancedVariants\<close> never returns an empty list. When
  no stock item of the group has both a stock id and a serial number (in particular when
  the group has no stock item), the result is the single default variant if the group has
  a \<open>basePrice\<close>, and a \<^verbatim>\<open>TypeError\<close> if it has none; the default variant has the
  options Space Gray, Grade A and English and the group's \<open>totalUnits\<close> as inventory
  quantity, 0 when \<open>totalUnits\<close> is missing. When some stock item has both, the result is
  a list with at least one variant. A create call that \<open>createNewProductAdvanced\<close> makes
  carries at least one variant.
\<close>

theorem createAdvancedVariants_never_empty:
  "createAdvancedVariants lc g \<noteq> Inr [] \<and>
   (filter validItem (stockItems g) = [] \<longrightarrow>
      createAdvancedVariants lc g =
        (case basePrice g of None \<Rightarrow> Inl TypeError | Some bp \<Rightarrow> Inr [defaultVariant g bp])) \<and>
   (filter validItem (stockItems g) \<noteq> [] \<longrightarrow>
      (\<exists>v vs. createAdvancedVariants lc g = Inr (v # vs))) \<and>
   option1 (defaultVariant g bp) = ''Space Gray'' \<and>
   option2 (defaultVariant g bp) = ''Grade A'' \<and>
   option3 (defaultVariant g bp) = ''English'' \<and>
   inventory_quantity (defaultVariant g bp) = (case totalUnits g of None \<Rightarrow> 0 | Some n \<Rightarrow> n) \<and>
   (snd (createNewProductAdvanced ok lc g calls) = calls @ [PostProduct t h vs] \<longrightarrow> vs \<noteq> [])"
proof -
  have ne: "createAdvancedVariants lc g \<noteq> Inr []"
  proof (cases "filter validItem (stockItems g) = []")
    case True
    then show ?thesis
      using createAdvancedVariants_fallback [OF True, of lc] by (simp split: option.splits)
  next
    case False
    then show ?thesis
      using createAdvancedVariants_regular [OF False, of lc] by simp
  qed
  have post: "vs \<noteq> []"
    if "snd (createNewProductAdvanced ok lc g calls) = calls @ [PostProduct t h vs]"
    using that ne
    by (cases "createAdvancedVariants lc g")
       (auto simp: createNewProductAdvanced_def fetch_def split: if_splits)
  have "filter validItem (stockItems g) \<noteq> [] \<Longrightarrow>
        \<exists>v vs. createAdvancedVariants lc g = Inr (v # vs)"
    using createAdvancedVariants_regular [of g lc] by (auto simp: neq_Nil_conv)
  with ne post createAdvancedVariants_fallback [of g lc]
  show ?thesis by (simp add: defaultVariant_def)
qed

theorem createAdvancedVariants_never_empty_witness:
  "filter validItem (stockItems (groupOf [unserialisedRow])) = [] \<and>
   createAdvancedVariants codeUnitCompare (groupOf [unserialisedRow])
     = Inr [defaultVariant (groupOf [unserialisedRow]) 2899] \<and>
   inventory_quantity (defaultVariant (groupOf [unserialisedRow]) 2899) = 1 \<and>
   snd (createNewProductAdvanced alwaysOk codeUnitCompare (groupOf [unserialisedRow]) [])
     = [] @ [PostProduct (seoTitle (groupOf [unserialisedRow]))
               (createSEOOptimizedHandle (groupOf [unserialisedRow]))
               [defaultVariant (groupOf [unserialisedRow]) 2899]] \<and>
   filter validItem (stockItems (groupOf scenarioRows)) \<noteq> [] \<and>
   (\<exists>v vs. createAdvancedVariants codeUnitCompare (groupOf scenarioRows) = Inr (v # vs)) \<and>
   filter validItem (stockItems unpricedGroup) = [] \<and>
   createAdvancedVariants codeUnitCompare unpricedGroup = Inl TypeError"
proof -
  note f = variants_facts
  from createAdvancedVariants_never_empty [of codeUnitCompare "groupOf [unserialisedRow]" 2899
      alwaysOk "[]" "seoTitle (groupOf [unserialisedRow])"
      "createSEOOptimizedHandle (groupOf [unserialisedRow])"
      "[defaultVariant (groupOf [unserialisedRow]) 2899]"] f
  have 1: "createAdvancedVariants codeUnitCompare (groupOf [unserialisedRow])
     = Inr [defaultVariant (groupOf [unserialisedRow]) 2899] \<and>
     inventory_quantity (defaultVariant (groupOf [unserialisedRow]) 2899) = 1"
    by simp
  then have 2: "snd (createNewProductAdvanced alwaysOk codeUnitCompare (groupOf [unserialisedRow]) [])
     = [] @ [PostProduct (seoTitle (groupOf [unserialisedRow]))
               (createSEOOptimizedHandle (groupOf [unserialisedRow]))
               [defaultVariant (groupOf [unserialisedRow]) 2899]]"
    by (simp add: createNewProductAdvanced_def fetch_def alwaysOk_def)
  from createAdvancedVariants_never_empty [of codeUnitCompare "groupOf scenarioRows" 2899
      alwaysOk "[]" "[]" "[]" "[]"] f
  have 3: "\<exists>v vs. createAdvancedVariants codeUnitCompare (groupOf scenarioRows) = Inr (v # vs)"
    by simp
  from createAdvancedVariants_never_empty [of codeUnitCompare unpricedGroup 2899
      alwaysOk "[]" "[]" "[]" "[]"] f
  have 4: "createAdvancedVariants codeUnitCompare unpricedGroup = Inl TypeError"
    by simp
  from 1 2 3 4 f show ?thesis by simp
qed




section \<open>Properties of the reconciler\<close>

text \<open>The calls that \<open>processVariants\<close> adds, and what it does when every call succeeds.\<close>

lemma variantCallOk_Cons:
  "variantCallOk ep rest c \<Longrightarrow> variantCallOk ep (newV # rest) c"
  by (auto simp: variantCallOk_def)

lemma processVariants_calls:
  "processVariants ok ep newVariants counters calls = (res, calls') \<Longrightarrow>
   \<exists>cs. calls' = calls @ cs \<and> (\<forall>c\<in>set cs. variantCallOk ep newVariants c)"
proof (induction newVariants arbitrary: counters calls)
  case Nil
  then show ?case by simp
next
  case (Cons newV rest)
  obtain nUpdated nCreated where counters: "counters = (nUpdated, nCreated)"
    by (cases counters)
  show ?case
  proof (cases "find (sameOptions newV) (variants_p ep)")
    case None
    define c where "c = PostVariant (id_p ep) newV"
    have c: "variantCallOk ep (newV # rest) c"
      using None by (auto simp: variantCallOk_def c_def)
    show ?thesis
    proof (cases "ok (length calls)")
      case True
      then have "processVariants ok ep rest (nUpdated, nCreated + 1) (calls @ [c]) = (res, calls')"
        using Cons.prems None by (simp add: counters fetch_def c_def)
      from Cons.IH [OF this] obtain cs where
        "calls' = (calls @ [c]) @ cs" "\<forall>x\<in>set cs. variantCallOk ep rest x" by blast
      then have "calls' = calls @ (c # cs) \<and> (\<forall>x\<in>set (c # cs). variantCallOk ep (newV # rest) x)"
        using c by (auto intro: variantCallOk_Cons)
      then show ?thesis by blast
    next
      case False
      then have "calls' = calls @ [c]"
        using Cons.prems None by (simp add: counters fetch_def c_def)
      then show ?thesis using c by auto
    qed
  next
    case (Some ev)
    define c where "c = PutVariant (id_v ev) (currentInventory ev + int (inventory_quantity newV))
                           (price newV) (compare_at_price newV) (sku newV)"
    have c: "variantCallOk ep (newV # rest) c"
      using Some by (auto simp: variantCallOk_def c_def)
    show ?thesis
    proof (cases "ok (length calls)")
      case True
      then have "processVariants ok ep rest (nUpdated + 1, nCreated) (calls @ [c]) = (res, calls')"
        using Cons.prems Some by (simp add: counters fetch_def c_def Let_def)
      from Cons.IH [OF this] obtain cs where
        "calls' = (calls @ [c]) @ cs" "\<forall>x\<in>set cs. variantCallOk ep rest x" by blast
      then have "calls' = calls @ (c # cs) \<and> (\<forall>x\<in>set (c # cs). variantCallOk ep (newV # rest) x)"
        using c by (auto intro: variantCallOk_Cons)
      then show ?thesis by blast
    next
      case False
      then have "calls' = calls @ [c]"
        using Cons.prems Some by (simp add: counters fetch_def c_def Let_def)
      then show ?thesis using c by auto
    qed
  qed
qed


lemma updateExistingProductAdvanced_calls:
  assumes "updateExistingProductAdvanced ok lc ep g calls = (res, calls')"
  shows "\<exists>cs. calls' = calls @ PutProduct (id_p ep) (seoTitle g) # cs \<and>
              (\<forall>c\<in>set cs. \<exists>vs. createAdvancedVariants lc g = Inr vs \<and> variantCallOk ep vs c)"
proof (cases "ok (length calls)")
  case False
  then show ?thesis using assms by (auto simp: updateExistingProductAdvanced_def fetch_def)
next
  case True
  show ?thesis
  proof (cases "createAdvancedVariants lc g")
    case (Inl e)
    then show ?thesis
      using assms True by (auto simp: updateExistingProductAdvanced_def fetch_def)
  next
    case (Inr vs)
    obtain r c2 where pv:
      "processVariants ok ep vs (0, 0) (calls @ [PutProduct (id_p ep) (seoTitle g)]) = (r, c2)"
      by (cases "processVariants ok ep vs (0, 0) (calls @ [PutProduct (id_p ep) (seoTitle g)])")
    from processVariants_calls [OF pv] obtain cs where
      cs: "c2 = (calls @ [PutProduct (id_p ep) (seoTitle g)]) @ cs"
          "\<forall>c\<in>set cs. variantCallOk ep vs c" by blast
    have "calls' = c2"
      using assms True Inr pv
      by (auto simp: updateExistingProductAdvanced_def fetch_def split: sum.splits prod.splits)
    with cs Inr show ?thesis by auto
  qed
qed







lemma findExisting_None_iff:
  "findExistingProductAdvanced ex g = None \<longleftrightarrow>
   (\<forall>p\<in>set ex. toLowerCase (title_p p) \<noteq> toLowerCase (seoTitle g))"
  by (auto simp: findExistingProductAdvanced_def find_None_iff)

lemma findExisting_SomeD:
  "findExistingProductAdvanced ex g = Some ep \<Longrightarrow>
   ep \<in> set ex \<and> toLowerCase (title_p ep) = toLowerCase (seoTitle g)"
  by (auto simp: findExistingProductAdvanced_def find_Some_iff)

lemma variantCallOk_not_post: "variantCallOk ep vs c \<Longrightarrow> \<not> isPostProduct c"
  by (auto simp: variantCallOk_def split: option.splits)

lemma createNewProductAdvanced_calls:
  "createNewProductAdvanced ok lc g calls = (res, calls') \<Longrightarrow>
   calls' = calls \<or>
   (\<exists>vs. calls' = calls @ [PostProduct (seoTitle g) (createSEOOptimizedHandle g) vs])"
  by (auto simp: createNewProductAdvanced_def fetch_def split: sum.splits if_splits)

lemma syncGroup_update_path:
  assumes f: "findExistingProductAdvanced ex g = Some ep"
    and s: "syncGroup ok lc ex (results, calls) g = (results', calls')"
  shows "\<exists>cs. calls' = calls @ PutProduct (id_p ep) (seoTitle g) # cs \<and>
              (\<forall>c\<in>set cs. \<not> isPostProduct c) \<and>
              created results' = created results \<and>
              (case fst (updateExistingProductAdvanced ok lc ep g calls) of
                 Inr r \<Rightarrow> updated results' = updated results + 1 \<and> errors results' = errors results
               | Inl e \<Rightarrow> updated results' = updated results \<and>
                          errors results' = errors results + 1 \<and>
                          details results' = details results @ [UpdateFailedSkipped (seoTitle g) e])"
proof -
  obtain res c2 where u: "updateExistingProductAdvanced ok lc ep g calls = (res, c2)"
    by (cases "updateExistingProductAdvanced ok lc ep g calls")
  from updateExistingProductAdvanced_calls [OF u] obtain cs where
    cs: "c2 = calls @ PutProduct (id_p ep) (seoTitle g) # cs"
        "\<forall>c\<in>set cs. \<exists>vs. createAdvancedVariants lc g = Inr vs \<and> variantCallOk ep vs c"
    by blast
  have np: "\<forall>c\<in>set cs. \<not> isPostProduct c"
    using cs(2) variantCallOk_not_post by blast
  have c2: "calls' = c2"
    using s f u by (auto simp: syncGroup_def split: sum.splits prod.splits)
  show ?thesis
  proof (cases res)
    case (Inl e)
    then have "results' = results\<lparr>errors := errors results + 1,
        details := details results @ [UpdateFailedSkipped (seoTitle g) e]\<rparr>"
      using s f u by (auto simp: syncGroup_def)
    with Inl u c2 cs(1) np show ?thesis by auto
  next
    case (Inr r)
    obtain nU nI where r: "r = (nU, nI)" by (cases r)
    then have "results' = results\<lparr>updated := updated results + 1,
        variantsUpdated := variantsUpdated results + nU,
        stockItemsProcessed := addProcessed (stockItemsProcessed results) nI,
        details := details results @ [UpdatedDetail (seoTitle g) nU nI]\<rparr>"
      using s f u Inr by (auto simp: syncGroup_def)
    with Inr u c2 cs(1) np show ?thesis by auto
  qed
qed

lemma syncGroup_create_path:
  assumes f: "findExistingProductAdvanced ex g = None"
    and s: "syncGroup ok lc ex (results, calls) g = (results', calls')"
  shows "calls' = calls \<or>
         (\<exists>vs. calls' = calls @ [PostProduct (seoTitle g) (createSEOOptimizedHandle g) vs])"
proof -
  obtain res c2 where c: "createNewProductAdvanced ok lc g calls = (res, c2)"
    by (cases "createNewProductAdvanced ok lc g calls")
  have "calls' = c2"
    using s f c by (auto simp: syncGroup_def split: sum.splits prod.splits)
  with createNewProductAdvanced_calls [OF c] show ?thesis by simp
qed

lemma syncGroup_posts:
  assumes "PostProduct t h vs \<in> set (snd (syncGroup ok lc ex st g))"
  shows "PostProduct t h vs \<in> set (snd st) \<or>
         (seoTitle g = t \<and> findExistingProductAdvanced ex g = None)"
proof -
  obtain results calls where st: "st = (results, calls)" by (cases st)
  obtain results' calls' where s: "syncGroup ok lc ex (results, calls) g = (results', calls')"
    by (cases "syncGroup ok lc ex (results, calls) g")
  show ?thesis
  proof (cases "findExistingProductAdvanced ex g")
    case None
    from syncGroup_create_path [OF None s] assms show ?thesis
      by (auto simp: st s None)
  next
    case (Some ep)
    from syncGroup_update_path [OF Some s] obtain cs where
      "calls' = calls @ PutProduct (id_p ep) (seoTitle g) # cs" "\<forall>c\<in>set cs. \<not> isPostProduct c"
      by blast
    with assms show ?thesis by (auto simp: st s)
  qed
qed

lemma foldl_syncGroup_posts:
  "PostProduct t h vs \<in> set (snd (foldl (syncGroup ok lc ex) st gs)) \<Longrightarrow>
   PostProduct t h vs \<in> set (snd st) \<or>
   (\<exists>g\<in>set gs. seoTitle g = t \<and> findExistingProductAdvanced ex g = None)"
proof (induction gs arbitrary: st)
  case Nil
  then show ?case by simp
next
  case (Cons g gs)
  from Cons.IH [of "syncGroup ok lc ex st g"] Cons.prems
  have "PostProduct t h vs \<in> set (snd (syncGroup ok lc ex st g)) \<or>
        (\<exists>g\<in>set gs. seoTitle g = t \<and> findExistingProductAdvanced ex g = None)"
    by simp
  then show ?case using syncGroup_posts by fastforce
qed

lemma sync_facts:
  "toLowerCase (title_p (hd scenarioExisting)) = toLowerCase (seoTitle (groupOf scenarioRows)) \<and>
   title_p (hd scenarioExisting) \<noteq> seoTitle (groupOf scenarioRows) \<and>
   hd scenarioExisting \<in> set scenarioExisting"
  by code_simp

text \<open>
  C3. A product is looked up by its title, lower-cased on both sides and compared for
  equality. A create call carries the title of a group for which the fetched list has no
  such product. When the list has one, the step for the group chooses the update: it
  begins with the update of that product, adds no create call, leaves \<open>created\<close> as it
  is, and either counts an update or, when the update fails, counts an error and records
  the failure as skipped.
\<close>

theorem sync_updates_on_exact_title_match:
  "(findExistingProductAdvanced ex g = None \<longleftrightarrow>
      (\<forall>p\<in>set ex. toLowerCase (title_p p) \<noteq> toLowerCase (seoTitle g))) \<and>
   (PostProduct t h vs \<in> set (snd (syncShopify ok lc ex groups)) \<longrightarrow>
      (\<exists>g'\<in>snd ` set groups. seoTitle g' = t) \<and>
      (\<forall>p\<in>set ex. toLowerCase (title_p p) \<noteq> toLowerCase t)) \<and>
   (p \<in> set ex \<and> toLowerCase (title_p p) = toLowerCase (seoTitle g) \<and>
    syncGroup ok lc ex (results, calls) g = (results', calls') \<longrightarrow>
      (\<exists>ep cs. findExistingProductAdvanced ex g = Some ep \<and> ep \<in> set ex \<and>
         toLowerCase (title_p ep) = toLowerCase (seoTitle g) \<and>
         calls' = calls @ PutProduct (id_p ep) (seoTitle g) # cs \<and>
         (\<forall>c\<in>set cs. \<not> isPostProduct c) \<and>
         created results' = created results \<and>
         (case fst (updateExistingProductAdvanced ok lc ep g calls) of
            Inr r \<Rightarrow> updated results' = updated results + 1 \<and> errors results' = errors results
          | Inl e \<Rightarrow> updated results' = updated results \<and>
                     errors results' = errors results + 1 \<and>
                     details results' = details results @ [UpdateFailedSkipped (seoTitle g) e])))"
proof (intro conjI impI)
  show "findExistingProductAdvanced ex g = None \<longleftrightarrow>
      (\<forall>p\<in>set ex. toLowerCase (title_p p) \<noteq> toLowerCase (seoTitle g))"
    by (rule findExisting_None_iff)
next
  assume "PostProduct t h vs \<in> set (snd (syncShopify ok lc ex groups))"
  then have "\<exists>g\<in>set (map snd groups). seoTitle g = t \<and> findExistingProductAdvanced ex g = None"
    unfolding syncShopify_def
    using foldl_syncGroup_posts [of t h vs ok lc ex "(initialResults, [])" "map snd groups"]
    by simp
  then obtain g' where g': "g' \<in> snd ` set groups" "seoTitle g' = t"
    "findExistingProductAdvanced ex g' = None" by auto
  then show "\<exists>g'\<in>snd ` set groups. seoTitle g' = t" by blast
  show "\<forall>p\<in>set ex. toLowerCase (title_p p) \<noteq> toLowerCase t"
    using g' findExisting_None_iff by blast
next
  assume a: "p \<in> set ex \<and> toLowerCase (title_p p) = toLowerCase (seoTitle g) \<and>
    syncGroup ok lc ex (results, calls) g = (results', calls')"
  then have "findExistingProductAdvanced ex g \<noteq> None"
    using findExisting_None_iff by blast
  then obtain ep where ep: "findExistingProductAdvanced ex g = Some ep" by auto
  from syncGroup_update_path [OF ep] a findExisting_SomeD [OF ep] ep
  show "\<exists>ep cs. findExistingProductAdvanced ex g = Some ep \<and> ep \<in> set ex \<and>
         toLowerCase (title_p ep) = toLowerCase (seoTitle g) \<and>
         calls' = calls @ PutProduct (id_p ep) (seoTitle g) # cs \<and>
         (\<forall>c\<in>set cs. \<not> isPostProduct c) \<and>
         created results' = created results \<and>
         (case fst (updateExistingProductAdvanced ok lc ep g calls) of
            Inr r \<Rightarrow> updated results' = updated results + 1 \<and> errors results' = errors results
          | Inl e \<Rightarrow> updated results' = updated results \<and>
                     errors results' = errors results + 1 \<and>
                     details results' = details results @ [UpdateFailedSkipped (seoTitle g) e])"
    by blast
qed

theorem sync_updates_on_exact_title_match_witness:
  "hd scenarioExisting \<in> set scenarioExisting \<and>
   toLowerCase (title_p (hd scenarioExisting)) = toLowerCase (seoTitle (groupOf scenarioRows)) \<and>
   (\<exists>ep. findExistingProductAdvanced scenarioExisting (groupOf scenarioRows) = Some ep \<and>
     created (fst (syncGroup neverOk codeUnitCompare scenarioExisting (initialResults, [])
                     (groupOf scenarioRows))) = created initialResults)"
proof -
  have a: "hd scenarioExisting \<in> set scenarioExisting"
    "toLowerCase (title_p (hd scenarioExisting)) = toLowerCase (seoTitle (groupOf scenarioRows))"
    using sync_facts by simp_all
  obtain results' calls' where s:
    "syncGroup neverOk codeUnitCompare scenarioExisting (initialResults, [])
       (groupOf scenarioRows) = (results', calls')"
    by (cases "syncGroup neverOk codeUnitCompare scenarioExisting (initialResults, [])
       (groupOf scenarioRows)")
  from sync_updates_on_exact_title_match [of scenarioExisting "groupOf scenarioRows" "[]" "[]" "[]"
      neverOk codeUnitCompare "[]" "hd scenarioExisting" initialResults "[]" results' calls']
    a s
  show ?thesis by auto
qed

section \<open>Properties of the product description\<close>

lemma faq_block_differs:
  "concat (map faqHtml (selectedFAQs id vs)) \<noteq> concat (map faqHtml (selectedFAQs rev vs))"
proof -
  obtain a1 t1 where
    i: "selectedFAQs id vs = (CHR ''I'' # ''s this genuine Apple hardware?'', a1) # t1"
    by (simp add: selectedFAQs_def faqPool_def)
  obtain a2 t2 where
    r: "selectedFAQs rev vs = (CHR ''W'' # ''hat keyboard options are available?'', a2) # t2"
    by (simp add: selectedFAQs_def faqPool_def)
  show ?thesis
    by (simp add: i r faqHtml_def)
qed

text \<open>
  C5. For a fixed spec and fixed variants, two evaluations of the content generator give
  the same output. The product description contains four of eight FAQ entries in an order
  drawn with \<^verbatim>\<open>Math.random\<close>: for the spec and the variants of the scenario, and any
  template text around the block, the description differs between an evaluation whose
  random sort leaves the pool in order and one whose random sort reverses it.
\<close>

theorem description_depends_on_random_order:
  "\<not> (\<forall>shuffle before after.
        createAdvancedProductDescription shuffle before after scenarioSpec
          (variants (groupOf scenarioRows))
        = createAdvancedProductDescription id before after scenarioSpec
          (variants (groupOf scenarioRows)))"
proof
  assume "\<forall>shuffle before after.
        createAdvancedProductDescription shuffle before after scenarioSpec
          (variants (groupOf scenarioRows))
        = createAdvancedProductDescription id before after scenarioSpec
          (variants (groupOf scenarioRows))"
  then have "createAdvancedProductDescription rev (\<lambda>p vs. []) (\<lambda>p vs. []) scenarioSpec
          (variants (groupOf scenarioRows))
        = createAdvancedProductDescription id (\<lambda>p vs. []) (\<lambda>p vs. []) scenarioSpec
          (variants (groupOf scenarioRows))"
    by blast
  then show False
    using faq_block_differs [of "variants (groupOf scenarioRows)"]
    by (simp add: createAdvancedProductDescription_def)
qed

text \<open>
  The rendering of a list of entries of the pool determines the list: the questions of the
  pool differ within their first eight characters, so the rendering of one entry is not
  the beginning of the rendering of another.
\<close>

lemma faqPool_tags:
  "map (\<lambda>f. take 8 (fst f)) (faqPool k) =
     [''Is this '', ''What doe'', ''Do I get'', ''Can I re'', ''What's i'', ''How long'',
      ''What's y'', ''What key'']"
  by (simp add: faqPool_def)

lemma faqPool_tag_inj:
  assumes "f \<in> set (faqPool k)" "g \<in> set (faqPool k)" "take 8 (fst f) = take 8 (fst g)"
  shows "f = g"
proof -
  have "distinct (map (\<lambda>f. take 8 (fst f)) (faqPool k))"
    unfolding faqPool_tags by simp
  then have "inj_on (\<lambda>f. take 8 (fst f)) (set (faqPool k))"
    by (simp add: distinct_map)
  then show ?thesis using assms by (auto dest: inj_onD)
qed

lemma faqPool_question_length:
  assumes "f \<in> set (faqPool k)"
  shows "8 \<le> length (fst f)"
proof -
  have "\<forall>t\<in>set (map (\<lambda>f. take 8 (fst f)) (faqPool k)). length t = 8"
    unfolding faqPool_tags by simp
  moreover have "take 8 (fst f) \<in> set (map (\<lambda>f. take 8 (fst f)) (faqPool k))"
    using assms by auto
  ultimately have "length (take 8 (fst f)) = 8" by blast
  then show ?thesis by simp
qed

lemma faqHtml_tag:
  assumes "8 \<le> length (fst f)"
  shows "take 8 (drop 11 (faqHtml f @ r)) = take 8 (fst f)"
  using assms by (simp add: faqHtml_def)

lemma faqHtml_not_Nil: "faqHtml f \<noteq> []"
  by (simp add: faqHtml_def)

lemma faq_rendering_inj:
  assumes "set xs \<subseteq> set (faqPool k)" "set ys \<subseteq> set (faqPool k)"
    and "concat (map faqHtml xs) = concat (map faqHtml ys)"
  shows "xs = ys"
  using assms
proof (induction xs arbitrary: ys)
  case Nil
  then show ?case by (cases ys) (simp_all add: faqHtml_not_Nil)
next
  case (Cons x xs)
  show ?case
  proof (cases ys)
    case Nil
    with Cons.prems show ?thesis by (simp add: faqHtml_not_Nil)
  next
    case (Cons y ys')
    have x: "x \<in> set (faqPool k)" and y: "y \<in> set (faqPool k)"
      using Cons.prems Cons by auto
    have eq: "faqHtml x @ concat (map faqHtml xs) = faqHtml y @ concat (map faqHtml ys')"
      using Cons.prems(3) Cons by simp
    have "take 8 (fst x) = take 8 (fst y)"
      using faqHtml_tag [OF faqPool_question_length [OF x], of "concat (map faqHtml xs)"]
        faqHtml_tag [OF faqPool_question_length [OF y], of "concat (map faqHtml ys')"] eq
      by simp
    then have xy: "x = y" using faqPool_tag_inj x y by blast
    with eq have "concat (map faqHtml xs) = concat (map faqHtml ys')" by simp
    moreover have "set xs \<subseteq> set (faqPool k)" "set ys' \<subseteq> set (faqPool k)"
      using Cons.prems Cons by auto
    ultimately have "xs = ys'" using Cons.IH by blast
    with xy Cons show ?thesis by simp
  qed
qed

text \<open>
  C5, as the source has it. The product description is not determined by the spec and the
  variants: its FAQ block is the rendering of the four entries that a random sort of the
  pool of eight puts first. For two evaluations on the same variants whose random sorts
  each leave a permutation of the pool, and with the same template text around the block,
  the descriptions are equal if and only if the two sorts put the same four entries first
  in the same order.
\<close>

theorem description_equal_iff_same_selected_faqs:
  assumes "mset (shuffle (faqPool (keyboardInfoOf vs))) = mset (faqPool (keyboardInfoOf vs))"
    and "mset (shuffle' (faqPool (keyboardInfoOf vs))) = mset (faqPool (keyboardInfoOf vs))"
  shows "createAdvancedProductDescription shuffle before after p vs
           = createAdvancedProductDescription shuffle' before after p vs
         \<longleftrightarrow> take 4 (shuffle (faqPool (keyboardInfoOf vs)))
             = take 4 (shuffle' (faqPool (keyboardInfoOf vs)))"
proof -
  define pool where "pool = faqPool (keyboardInfoOf vs)"
  have "set (shuffle pool) = set pool" "set (shuffle' pool) = set pool"
    using assms unfolding pool_def by (auto dest: mset_eq_setD)
  then have sub: "set (take 4 (shuffle pool)) \<subseteq> set pool" "set (take 4 (shuffle' pool)) \<subseteq> set pool"
    using set_take_subset by fastforce+
  have "concat (map faqHtml (take 4 (shuffle pool))) = concat (map faqHtml (take 4 (shuffle' pool)))
        \<longleftrightarrow> take 4 (shuffle pool) = take 4 (shuffle' pool)"
    using faq_rendering_inj [OF sub [unfolded pool_def]] unfolding pool_def by auto
  then show ?thesis
    by (simp add: createAdvancedProductDescription_def selectedFAQs_def pool_def)
qed

theorem description_equal_iff_same_selected_faqs_witness:
  "mset (id (faqPool (keyboardInfoOf ([] :: (string \<times> string variantBucket) list)))) = mset (faqPool (keyboardInfoOf ([] :: (string \<times> string variantBucket) list))) \<and>
   mset (reverseTail (faqPool (keyboardInfoOf ([] :: (string \<times> string variantBucket) list)))) = mset (faqPool (keyboardInfoOf ([] :: (string \<times> string variantBucket) list))) \<and>
   mset (rev (faqPool (keyboardInfoOf ([] :: (string \<times> string variantBucket) list)))) = mset (faqPool (keyboardInfoOf ([] :: (string \<times> string variantBucket) list))) \<and>
   take 4 (id (faqPool (keyboardInfoOf ([] :: (string \<times> string variantBucket) list)))) = take 4 (reverseTail (faqPool (keyboardInfoOf ([] :: (string \<times> string variantBucket) list)))) \<and>
   createAdvancedProductDescription id noText noText scenarioSpec ([] :: (string \<times> string variantBucket) list)
     = createAdvancedProductDescription reverseTail noText noText scenarioSpec ([] :: (string \<times> string variantBucket) list) \<and>
   take 4 (id (faqPool (keyboardInfoOf ([] :: (string \<times> string variantBucket) list)))) \<noteq> take 4 (rev (faqPool (keyboardInfoOf ([] :: (string \<times> string variantBucket) list)))) \<and>
   createAdvancedProductDescription id noText noText scenarioSpec ([] :: (string \<times> string variantBucket) list)
     \<noteq> createAdvancedProductDescription rev noText noText scenarioSpec ([] :: (string \<times> string variantBucket) list)"
proof -
  define pool where "pool = (faqPool (keyboardInfoOf ([] :: (string \<times> string variantBucket) list)))"
  have "mset (take 4 pool) + mset (drop 4 pool) = mset (take 4 pool @ drop 4 pool)"
    by (simp only: mset_append)
  then have "mset (take 4 pool) + mset (drop 4 pool) = mset pool"
    by (simp only: append_take_drop_id)
  then have m: "mset (id pool) = mset pool" "mset (reverseTail pool) = mset pool"
    "mset (rev pool) = mset pool"
    by (simp_all add: reverseTail_def)
  have h: "take 4 (id pool) = take 4 (reverseTail pool)"
    by (simp add: reverseTail_def pool_def faqPool_def)
  have n: "take 4 (id pool) \<noteq> take 4 (rev pool)"
    by (simp add: pool_def faqPool_def)
  from description_equal_iff_same_selected_faqs [of id "([] :: (string \<times> string variantBucket) list)"
      reverseTail noText noText scenarioSpec]
    description_equal_iff_same_selected_faqs [of id "([] :: (string \<times> string variantBucket) list)"
      rev noText noText scenarioSpec]
    m h n
  show ?thesis unfolding pool_def by simp
qed

end
